theory Spec2Isabelle
  imports Complex_Main
begin

section \<open>Data model\<close>

text \<open>
  A \<open>datetime\<close> is the number of microseconds since some epoch (the resolution of
  Python's \<open>datetime.datetime.now()\<close>); the difference of two of them is a
  \<open>timedelta\<close>, again in microseconds. A feature vector is the list
  \<open>[event_type, file_size]\<close> built by \<open>_get_event_vector\<close>.
\<close>

type_synonym path = string
type_synonym datetime = int
type_synonym timedelta = int
type_synonym feature_vector = "int list"
type_synonym pid = nat

text \<open>The exceptions that the modelled code can raise or see.\<close>

datatype exn =
    FitError | NotFittedError | ZeroDivisionError | AttributeError
  | OSError | NoSuchProcess

text \<open>
  Lines written by \<open>print\<close>. The source formats them with f-strings; the model keeps
  the format as the constructor and the interpolated values as its arguments.
\<close>

datatype log_line =
    ML_Anomaly_detected
  | DEBUG_Using_detector
  | WARN_no_response_engine
  | THREAT_MEDIUM_locking nat
  | THREAT_HIGH_quarantining nat
  | RESPONSE_Quarantining_file path
  | RESPONSE_Locking_file_permissions path
  | RESPONSE_Killing_process pid
  | RESPONSE_Killing_process_with_open_file pid path
  | RESPONSE_Locking_directory path
  | ERROR_Failed_to_quarantine_file exn
  | ERROR_Failed_to_lock_file exn
  | ERROR_Failed_to_kill_process exn
  | ERROR_Failed_to_lock_file_in_dir exn
  | Alert string

text \<open>The four methods of the response engine that the detector calls.\<close>

datatype call =
    Lock_file path
  | Quarantine_file path
  | Lock_directory path
  | Kill_offending_process path

text \<open>
  Everything the code does to its collaborators, in the order it does it: a line on
  standard output, a line for the GUI queue, a line of the log file, a method call on the
  attached response engine, and the two calls into the outlier-detection library.
\<close>

datatype effect =
    Print log_line
  | Gui_log string
  | Log_event string string
  | Engine call
  | Fit real "feature_vector list"
  | Predict feature_vector

text \<open>
  A method either returns or raises; in both cases the object it mutated is left in some
  state, and the effects made so far have happened.
\<close>

datatype 's result =
    Returned "effect list" 's
  | Raised "effect list" exn 's

fun effects_of :: "'s result \<Rightarrow> effect list" where
  "effects_of (Returned es s) = es"
| "effects_of (Raised es e s) = es"

fun state_of :: "'s result \<Rightarrow> 's" where
  "state_of (Returned es s) = s"
| "state_of (Raised es e s) = s"

fun raised :: "'s result \<Rightarrow> bool" where
  "raised (Returned es s) = False"
| "raised (Raised es e s) = True"

fun is_engine_call :: "effect \<Rightarrow> bool" where
  "is_engine_call (Engine c) = True"
| "is_engine_call _ = False"

fun is_fit :: "effect \<Rightarrow> bool" where
  "is_fit (Fit c X) = True"
| "is_fit _ = False"

subsection \<open>The outlier-detection library\<close>

text \<open>
  \<open>IsolationForest\<close> is not part of the repository. The model takes it as a parameter:
  \<open>fit c X\<close> is the fitted state of an estimator built with contamination \<open>c\<close> and
  \<open>random_state=42\<close> and fitted on \<open>X\<close>, or \<open>None\<close> when \<open>fit\<close> raises;
  \<open>predict m v\<close> is the first entry of \<open>predict([v])\<close> of a fitted estimator.
  An estimator object is \<open>Forest c None\<close> between its construction and a successful
  \<open>fit\<close>.
\<close>

record 'm sklearn =
  fit :: "real \<Rightarrow> feature_vector list \<Rightarrow> 'm option"
  predict :: "'m \<Rightarrow> feature_vector \<Rightarrow> int"

datatype 'm forest = Forest (contamination: real) (fitted: "'m option")

subsection \<open>The detector object\<close>

record response_engine =
  quarantine_dir :: path
  dry_run :: bool

type_synonym entry = "datetime \<times> feature_vector \<times> path option"

record 'm detector =
  threshold :: int
  time_window :: int
  event_queue :: "entry list"
  samples :: "feature_vector list"
  max_samples :: nat
  train_interval :: int
  last_trained :: datetime
  model :: "'m forest option"
  response_engine :: "response_engine option"

text \<open>\<open>AdvancedAnomalyDetector.__init__\<close>, at time \<open>now\<close>.\<close>

definition init :: "datetime \<Rightarrow> int \<Rightarrow> int \<Rightarrow> int \<Rightarrow> nat \<Rightarrow> response_engine option
    \<Rightarrow> 'm detector" where
  "init now thr tw ti ms eng =
     \<lparr>threshold = thr, time_window = tw, event_queue = [], samples = [],
      max_samples = ms, train_interval = ti, last_trained = now, model = None,
      response_engine = eng\<rparr>"

text \<open>
  \<open>timedelta.seconds\<close>: a timedelta is kept normalised as days, seconds
  (\<open>0 \<le> seconds < 86400\<close>) and microseconds, with floor division; \<open>.seconds\<close> is the
  middle component only.
\<close>

definition timedelta_seconds :: "timedelta \<Rightarrow> int" where
  "timedelta_seconds delta = (delta div 1000000) mod 86400"

text \<open>\<open>deque(maxlen=n).append\<close>: a full deque discards from the left.\<close>

definition deque_append :: "nat \<Rightarrow> 'a list \<Rightarrow> 'a \<Rightarrow> 'a list" where
  "deque_append maxlen xs x = drop (length (xs @ [x]) - maxlen) (xs @ [x])"

section \<open>The detector\<close>

text \<open>
  \<open>_train_model\<close> (detector.py, lines 28 to 37). The estimator is stored in
  \<open>self.model\<close> before \<open>fit\<close> is called on it, so a \<open>fit\<close> that raises leaves the
  unfitted estimator there. \<open>float(threshold) / len(samples)\<close> raises on an empty
  buffer.
\<close>

definition train_model :: "'m sklearn \<Rightarrow> 'm detector \<Rightarrow> 'm detector result" where
  "train_model lib d =
     (if int (length (samples d)) < threshold d * 2 then Returned [] d
      else if length (samples d) = 0 then Raised [] ZeroDivisionError d
      else
        let c = real_of_int (threshold d) / real (length (samples d));
            m = fit lib c (samples d);
            d' = d\<lparr>model := Some (Forest c m)\<rparr>
        in if m = None then Raised [Fit c (samples d)] FitError d'
           else Returned [Fit c (samples d)] d')"

text \<open>The loop of lines 47 to 49: pop from the left while the head is too old.\<close>

fun popleft_old :: "datetime \<Rightarrow> int \<Rightarrow> entry list \<Rightarrow> entry list" where
  "popleft_old current_time tw [] = []"
| "popleft_old current_time tw (e # es) =
     (if timedelta_seconds (current_time - fst e) > tw
      then popleft_old current_time tw es else e # es)"

text \<open>Lines 42 to 49 of \<open>add_event\<close>: store the event and the sample, then evict.\<close>

definition record_event :: "datetime \<Rightarrow> feature_vector \<Rightarrow> path option \<Rightarrow> 'm detector
    \<Rightarrow> 'm detector" where
  "record_event current_time feature_vector path d =
     (let d1 = d\<lparr>event_queue := event_queue d @ [(current_time, feature_vector, path)],
                samples := deque_append (max_samples d) (samples d) feature_vector\<rparr>
      in d1\<lparr>event_queue := popleft_old current_time (time_window d1) (event_queue d1)\<rparr>)"

text \<open>
  Lines 51 to 54: retrain periodically. \<open>last_trained\<close> is assigned after
  \<open>_train_model\<close> returns, whatever it did; an exception skips the assignment.
\<close>

definition retrain :: "'m sklearn \<Rightarrow> datetime \<Rightarrow> 'm detector \<Rightarrow> 'm detector result" where
  "retrain lib current_time d =
     (if timedelta_seconds (current_time - last_trained d) > train_interval d then
        (case train_model lib d of
           Raised es e d' \<Rightarrow> Raised es e d'
         | Returned es d' \<Rightarrow> Returned es (d'\<lparr>last_trained := current_time\<rparr>))
      else Returned [] d)"

text \<open>
  Lines 56 to 62: the value of \<open>is_ml_anomaly\<close>, or the exception of \<open>predict\<close> on an
  estimator that was never fitted. The detector is not changed.
\<close>

definition anomaly_detection :: "'m sklearn \<Rightarrow> feature_vector \<Rightarrow> 'm detector
    \<Rightarrow> bool result" where
  "anomaly_detection lib feature_vector d =
     (case model d of
        None \<Rightarrow> Returned [] False
      | Some (Forest c None) \<Rightarrow> Raised [Predict feature_vector] NotFittedError False
      | Some (Forest c (Some m)) \<Rightarrow>
          if predict lib m feature_vector = - 1
          then Returned [Predict feature_vector, Print ML_Anomaly_detected] True
          else Returned [Predict feature_vector] False)"

text \<open>
  \<open>os.path.dirname\<close> (posixpath): the part up to the last slash, with trailing slashes
  stripped unless it consists of slashes only.
\<close>

definition dirname :: "path \<Rightarrow> path" where
  "dirname p =
     (let head = rev (dropWhile (\<lambda>c. c \<noteq> CHR ''/'') (rev p))
      in if head \<noteq> [] \<and> filter (\<lambda>c. c \<noteq> CHR ''/'') head \<noteq> []
         then rev (dropWhile (\<lambda>c. c = CHR ''/'') (rev head)) else head)"

text \<open>
  Line 99: the paths of the queue that are truthy (neither \<open>None\<close> nor the empty
  string), as a set. Python does not fix the iteration order of a set; the model lists
  the elements in order of first occurrence; the theorem on escalation below adds
  which set the list stands for and that no element occurs twice in it.
\<close>

fun truthy_paths :: "entry list \<Rightarrow> path list" where
  "truthy_paths [] = []"
| "truthy_paths ((t, v, None) # es) = truthy_paths es"
| "truthy_paths ((t, v, Some p) # es) =
     (if p = [] then truthy_paths es else p # truthy_paths es)"

definition affected_files :: "entry list \<Rightarrow> path list" where
  "affected_files q = remdups (truthy_paths q)"

text \<open>
  \<open>_handle_threat\<close> (detector.py, lines 91 to 117). \<open>not path\<close> holds of \<open>None\<close>
  and of the empty string. \<open>respond\<close> is the part after the guard, lines 98 to 117.
\<close>

definition respond :: "path \<Rightarrow> nat \<Rightarrow> 'm detector \<Rightarrow> effect list \<times> 'm detector" where
  "respond path event_count d =
     (let affected = affected_files (event_queue d);
          medium =
            (if int event_count \<ge> threshold d
             then Print (THREAT_MEDIUM_locking (length affected))
                  # map (\<lambda>f. Engine (Lock_file f)) affected
             else []);
          dir_path = dirname path;
          high =
            (if int event_count \<ge> threshold d * 2
             then Print (THREAT_HIGH_quarantining (length affected))
                  # map (\<lambda>f. Engine (Quarantine_file f)) affected
                  @ [Engine (Lock_directory dir_path),
                     Engine (Kill_offending_process dir_path)]
             else [])
      in (medium @ high,
          if int event_count \<ge> threshold d * 2 then d\<lparr>event_queue := []\<rparr> else d))"

definition handle_threat :: "path option \<Rightarrow> nat \<Rightarrow> 'm detector \<Rightarrow> effect list \<times> 'm detector"
  where
  "handle_threat path event_count d =
     (case path of
        None \<Rightarrow> ([Print DEBUG_Using_detector, Print WARN_no_response_engine], d)
      | Some p \<Rightarrow>
          if response_engine d = None \<or> p = []
          then ([Print DEBUG_Using_detector, Print WARN_no_response_engine], d)
          else (case respond p event_count d of
                  (es, d') \<Rightarrow> (Print DEBUG_Using_detector # es, d')))"

text \<open>\<open>add_event\<close> (detector.py, lines 39 to 68), called at time \<open>current_time\<close>.\<close>

definition add_event :: "'m sklearn \<Rightarrow> datetime \<Rightarrow> feature_vector \<Rightarrow> path option
    \<Rightarrow> 'm detector \<Rightarrow> 'm detector result" where
  "add_event lib current_time feature_vector path d =
     (case retrain lib current_time (record_event current_time feature_vector path d) of
        Raised es e d' \<Rightarrow> Raised es e d'
      | Returned es d' \<Rightarrow>
          (case anomaly_detection lib feature_vector d' of
             Raised es' e b \<Rightarrow> Raised (es @ es') e d'
           | Returned es' is_ml_anomaly \<Rightarrow>
               let is_burst = (int (length (event_queue d')) \<ge> threshold d') in
               if is_ml_anomaly \<or> is_burst then
                 (case handle_threat path (length (event_queue d')) d' of
                    (es'', d'') \<Rightarrow> Returned (es @ es' @ es'') d'')
               else Returned (es @ es') d'))"

text \<open>
  A sequence of calls of \<open>add_event\<close>, each with its time, feature vector and path.
  Nothing in the detector catches an exception, so the first call that raises ends the
  sequence.
\<close>

fun run :: "'m sklearn \<Rightarrow> entry list \<Rightarrow> 'm detector \<Rightarrow> 'm detector result" where
  "run lib [] d = Returned [] d"
| "run lib ((t, v, p) # calls) d =
     (case add_event lib t v p d of
        Raised es e d' \<Rightarrow> Raised es e d'
      | Returned es d' \<Rightarrow>
          (case run lib calls d' of
             Raised es' e d'' \<Rightarrow> Raised (es @ es') e d''
           | Returned es' d'' \<Rightarrow> Returned (es @ es') d''))"

section \<open>The response engine\<close>

text \<open>
  The operating system is not part of the repository either. Its state is any type
  \<open>'w\<close>; the calls that \<open>response.py\<close> makes are the fields of \<open>os_iface\<close>. A call
  that can raise returns the exception, if any, with the state it leaves. \<open>walk_files\<close>
  is the list of \<open>os.path.join(root, f)\<close> that \<open>os.walk\<close> yields, \<open>process_iter\<close>
  the \<open>pid\<close> and \<open>open_files\<close> of every process that \<open>psutil.process_iter\<close> yields
  (\<open>None\<close> when access is denied), both taken when the loop starts.
\<close>

record 'w os_iface =
  path_exists :: "'w \<Rightarrow> path \<Rightarrow> bool"
  chmod :: "path \<Rightarrow> nat \<Rightarrow> 'w \<Rightarrow> exn option \<times> 'w"
  shutil_move :: "path \<Rightarrow> path \<Rightarrow> 'w \<Rightarrow> exn option \<times> 'w"
  walk_files :: "'w \<Rightarrow> path \<Rightarrow> path list"
  process_iter :: "'w \<Rightarrow> (pid \<times> path list option) list"
  process_lookup :: "'w \<Rightarrow> pid \<Rightarrow> bool"
  terminate :: "pid \<Rightarrow> 'w \<Rightarrow> exn option \<times> 'w"

text \<open>\<open>os.path.basename\<close> and \<open>os.path.join\<close> of two components (posixpath).\<close>

definition basename :: "path \<Rightarrow> path" where
  "basename p = rev (takeWhile (\<lambda>c. c \<noteq> CHR ''/'') (rev p))"

definition path_join :: "path \<Rightarrow> path \<Rightarrow> path" where
  "path_join a b =
     (if take 1 b = ''/'' then b
      else if a = [] \<or> take 1 (rev a) = ''/'' then a @ b
      else a @ ''/'' @ b)"

text \<open>\<open>quarantine_file\<close> (response.py, lines 15 to 27).\<close>

definition quarantine_file :: "'w os_iface \<Rightarrow> response_engine \<Rightarrow> path \<Rightarrow> 'w
    \<Rightarrow> effect list \<times> 'w" where
  "quarantine_file os self path w =
     (if \<not> path_exists os w path then ([], w)
      else
        let dest = path_join (quarantine_dir self) (basename path) in
        if \<not> dry_run self then
          (case shutil_move os path dest w of
             (None, w') \<Rightarrow> ([Print (RESPONSE_Quarantining_file path)], w')
           | (Some e, w') \<Rightarrow>
               ([Print (RESPONSE_Quarantining_file path),
                 Print (ERROR_Failed_to_quarantine_file e)], w'))
        else ([Print (RESPONSE_Quarantining_file path)], w))"

text \<open>\<open>lock_file\<close> (response.py, lines 29 to 39); \<open>0o400\<close> is 256.\<close>

definition lock_file :: "'w os_iface \<Rightarrow> response_engine \<Rightarrow> path \<Rightarrow> 'w
    \<Rightarrow> effect list \<times> 'w" where
  "lock_file os self path w =
     (if \<not> path_exists os w path then ([], w)
      else if \<not> dry_run self then
        (case chmod os path 256 w of
           (None, w') \<Rightarrow> ([Print (RESPONSE_Locking_file_permissions path)], w')
         | (Some e, w') \<Rightarrow>
             ([Print (RESPONSE_Locking_file_permissions path),
               Print (ERROR_Failed_to_lock_file e)], w'))
      else ([Print (RESPONSE_Locking_file_permissions path)], w))"

text \<open>
  \<open>kill_process\<close> (response.py, lines 42 to 50). \<open>psutil.Process(pid)\<close> raises for a
  pid that is not running, before anything is printed.
\<close>

definition kill_process :: "'w os_iface \<Rightarrow> response_engine \<Rightarrow> pid \<Rightarrow> 'w
    \<Rightarrow> effect list \<times> 'w" where
  "kill_process os self pid w =
     (if \<not> process_lookup os w pid
      then ([Print (ERROR_Failed_to_kill_process NoSuchProcess)], w)
      else if \<not> dry_run self then
        (case terminate os pid w of
           (None, w') \<Rightarrow> ([Print (RESPONSE_Killing_process pid)], w')
         | (Some e, w') \<Rightarrow>
             ([Print (RESPONSE_Killing_process pid),
               Print (ERROR_Failed_to_kill_process e)], w'))
      else ([Print (RESPONSE_Killing_process pid)], w))"

text \<open>The loop of \<open>lock_directory\<close> over the files (lines 81 to 86).\<close>

fun lock_files_in_dir :: "'w os_iface \<Rightarrow> path list \<Rightarrow> 'w \<Rightarrow> effect list \<times> 'w" where
  "lock_files_in_dir os [] w = ([], w)"
| "lock_files_in_dir os (f # fs) w =
     (case chmod os f 256 w of
        (None, w') \<Rightarrow> lock_files_in_dir os fs w'
      | (Some e, w') \<Rightarrow>
          (case lock_files_in_dir os fs w' of
             (es, w'') \<Rightarrow> (Print (ERROR_Failed_to_lock_file_in_dir e) # es, w'')))"

text \<open>\<open>lock_directory\<close> (response.py, lines 76 to 91); \<open>0o555\<close> is 365.\<close>

definition lock_directory :: "'w os_iface \<Rightarrow> response_engine \<Rightarrow> path \<Rightarrow> 'w
    \<Rightarrow> effect list \<times> 'w" where
  "lock_directory os self dir_path w =
     (if dry_run self then ([Print (RESPONSE_Locking_directory dir_path)], w)
      else
        (case lock_files_in_dir os (walk_files os w dir_path) w of
           (es, w') \<Rightarrow>
             (Print (RESPONSE_Locking_directory dir_path) # es,
              snd (chmod os dir_path 365 w'))))"

text \<open>
  The inner loop of \<open>kill_offending_process\<close> (lines 99 to 103): the first open file
  whose path starts with \<open>dir_path\<close>, if there is one.
\<close>

fun first_open_under :: "path \<Rightarrow> path list \<Rightarrow> path option" where
  "first_open_under dir_path [] = None"
| "first_open_under dir_path (f # fs) =
     (if take (length dir_path) f = dir_path then Some f
      else first_open_under dir_path fs)"

text \<open>The outer loop of \<open>kill_offending_process\<close> (lines 95 to 105).\<close>

fun kill_each :: "'w os_iface \<Rightarrow> response_engine \<Rightarrow> path
    \<Rightarrow> (pid \<times> path list option) list \<Rightarrow> 'w \<Rightarrow> effect list \<times> 'w" where
  "kill_each os self dir_path [] w = ([], w)"
| "kill_each os self dir_path ((pid, files) # ps) w =
     (case (case files of None \<Rightarrow> None | Some fs \<Rightarrow> first_open_under dir_path fs) of
        None \<Rightarrow> kill_each os self dir_path ps w
      | Some f \<Rightarrow>
          (case kill_process os self pid w of
             (es, w') \<Rightarrow>
               (case kill_each os self dir_path ps w' of
                  (es', w'') \<Rightarrow>
                    (Print (RESPONSE_Killing_process_with_open_file pid f) # es @ es',
                     w''))))"

definition kill_offending_process :: "'w os_iface \<Rightarrow> response_engine \<Rightarrow> path \<Rightarrow> 'w
    \<Rightarrow> effect list \<times> 'w" where
  "kill_offending_process os self dir_path w =
     kill_each os self dir_path (process_iter os w) w"

text \<open>A call of the detector, executed by the engine it is attached to.\<close>

fun perform :: "'w os_iface \<Rightarrow> response_engine \<Rightarrow> call \<Rightarrow> 'w \<Rightarrow> effect list \<times> 'w" where
  "perform os self (Lock_file p) w = lock_file os self p w"
| "perform os self (Quarantine_file p) w = quarantine_file os self p w"
| "perform os self (Lock_directory p) w = lock_directory os self p w"
| "perform os self (Kill_offending_process p) w = kill_offending_process os self p w"

text \<open>
  The calls that a run of the detector made, executed in order by the engine; what the
  engine prints comes where the call stands, so the result is the standard output of
  the run.
\<close>

fun carry_out :: "'w os_iface \<Rightarrow> response_engine \<Rightarrow> effect list \<Rightarrow> 'w \<Rightarrow> effect list \<times> 'w"
  where
  "carry_out os self [] w = ([], w)"
| "carry_out os self (Engine c # es) w =
     (case perform os self c w of
        (out, w') \<Rightarrow> (case carry_out os self es w' of (out', w'') \<Rightarrow> (out @ out', w'')))"
| "carry_out os self (e # es) w =
     (case carry_out os self es w of (out, w') \<Rightarrow> (e # out, w'))"

section \<open>The event handler\<close>

text \<open>
  The class of a watchdog event, as the \<open>isinstance\<close> chain of \<open>_get_event_type\<close>
  tells them apart; every other class (directory events among them) is \<open>OtherEvent\<close>.
\<close>

datatype event_class =
  FileCreatedEvent | FileDeletedEvent | FileMovedEvent | FileModifiedEvent | OtherEvent

record fs_event =
  event_class :: event_class
  src_path :: path
  dest_path :: path

record 'm handler =
  ignore_patterns :: "string list"
  anomaly_detector :: "'m detector option"

fun get_event_type :: "fs_event \<Rightarrow> int" where
  "get_event_type event =
     (case event_class event of
        FileCreatedEvent \<Rightarrow> 0
      | FileDeletedEvent \<Rightarrow> 1
      | FileMovedEvent \<Rightarrow> 2
      | FileModifiedEvent \<Rightarrow> 3
      | OtherEvent \<Rightarrow> - 1)"

text \<open>
  \<open>_get_event_vector\<close> (idps.py, lines 34 to 43). \<open>getsize p\<close> is the size of the
  file at \<open>p\<close>, or \<open>None\<close> when \<open>os.path.exists(p)\<close> is false.
\<close>

definition get_event_vector :: "(path \<Rightarrow> nat option) \<Rightarrow> fs_event \<Rightarrow> feature_vector option"
  where
  "get_event_vector getsize event =
     (let event_type = get_event_type event in
      if event_type = - 1 then None
      else Some [event_type,
                 (case getsize (src_path event) of None \<Rightarrow> 0 | Some n \<Rightarrow> int n)])"

text \<open>
  \<open>should_ignore\<close> (idps.py, lines 45 to 49). \<open>fnmatch name pattern\<close> is the library
  function \<open>fnmatch.fnmatch\<close>, a parameter.
\<close>

fun should_ignore :: "(string \<Rightarrow> string \<Rightarrow> bool) \<Rightarrow> string list \<Rightarrow> path \<Rightarrow> bool" where
  "should_ignore fnmatch [] path = False"
| "should_ignore fnmatch (pattern # ps) path =
     (if fnmatch path pattern then True else should_ignore fnmatch ps path)"

text \<open>
  The three lines that every \<open>on_\<close> method has after its guard: extract the feature
  vector and, if there is one, hand it to the detector with the source path. A handler
  built without a detector has \<open>None\<close> there, and the method call on it raises.
\<close>

definition feed :: "(path \<Rightarrow> nat option) \<Rightarrow> 'm sklearn \<Rightarrow> datetime \<Rightarrow> fs_event
    \<Rightarrow> 'm handler \<Rightarrow> 'm handler result" where
  "feed getsize lib current_time event h =
     (case get_event_vector getsize event of
        None \<Rightarrow> Returned [] h
      | Some feature_vector \<Rightarrow>
          (case anomaly_detector h of
             None \<Rightarrow> Raised [] AttributeError h
           | Some d \<Rightarrow>
               (case add_event lib current_time feature_vector (Some (src_path event)) d of
                  Raised es e d' \<Rightarrow> Raised es e (h\<lparr>anomaly_detector := Some d'\<rparr>)
                | Returned es d' \<Rightarrow> Returned es (h\<lparr>anomaly_detector := Some d'\<rparr>))))"

text \<open>The alert, the GUI line and the log-file line that end every \<open>on_\<close> method.\<close>

definition report :: "string \<Rightarrow> string \<Rightarrow> string \<Rightarrow> string \<Rightarrow> 'm handler result
    \<Rightarrow> 'm handler result" where
  "report alert gui event_type logged r =
     (case r of
        Raised es e h \<Rightarrow> Raised es e h
      | Returned es h \<Rightarrow>
          Returned (es @ [Print (Alert alert), Gui_log gui, Log_event event_type logged]) h)"

text \<open>\<open>on_created\<close>, \<open>on_deleted\<close>, \<open>on_moved\<close>, \<open>on_modified\<close> (idps.py, lines 59 to 97).\<close>

definition on_created :: "(string \<Rightarrow> string \<Rightarrow> bool) \<Rightarrow> (path \<Rightarrow> nat option) \<Rightarrow> 'm sklearn
    \<Rightarrow> datetime \<Rightarrow> fs_event \<Rightarrow> 'm handler \<Rightarrow> 'm handler result" where
  "on_created fnmatch getsize lib current_time event h =
     (if should_ignore fnmatch (ignore_patterns h) (src_path event) then Returned [] h
      else report (''Alert! '' @ src_path event @ '' has been created.'')
             (''File created: '' @ src_path event) ''created'' (src_path event)
             (feed getsize lib current_time event h))"

definition on_deleted :: "(string \<Rightarrow> string \<Rightarrow> bool) \<Rightarrow> (path \<Rightarrow> nat option) \<Rightarrow> 'm sklearn
    \<Rightarrow> datetime \<Rightarrow> fs_event \<Rightarrow> 'm handler \<Rightarrow> 'm handler result" where
  "on_deleted fnmatch getsize lib current_time event h =
     (if should_ignore fnmatch (ignore_patterns h) (src_path event) then Returned [] h
      else report (''Alert! '' @ src_path event @ '' has been deleted.'')
             (''File deleted: '' @ src_path event) ''deleted'' (src_path event)
             (feed getsize lib current_time event h))"

definition on_moved :: "(string \<Rightarrow> string \<Rightarrow> bool) \<Rightarrow> (path \<Rightarrow> nat option) \<Rightarrow> 'm sklearn
    \<Rightarrow> datetime \<Rightarrow> fs_event \<Rightarrow> 'm handler \<Rightarrow> 'm handler result" where
  "on_moved fnmatch getsize lib current_time event h =
     (if should_ignore fnmatch (ignore_patterns h) (src_path event)
         \<and> should_ignore fnmatch (ignore_patterns h) (dest_path event)
      then Returned [] h
      else report
             (''Alert! '' @ src_path event @ '' has been moved to '' @ dest_path event @ ''.'')
             (''File moved: '' @ src_path event @ '' -> '' @ dest_path event) ''moved''
             (src_path event @ '' -> '' @ dest_path event)
             (feed getsize lib current_time event h))"

definition on_modified :: "(string \<Rightarrow> string \<Rightarrow> bool) \<Rightarrow> (path \<Rightarrow> nat option) \<Rightarrow> 'm sklearn
    \<Rightarrow> datetime \<Rightarrow> fs_event \<Rightarrow> 'm handler \<Rightarrow> 'm handler result" where
  "on_modified fnmatch getsize lib current_time event h =
     (if should_ignore fnmatch (ignore_patterns h) (src_path event) then Returned [] h
      else report (''Alert! '' @ src_path event @ '' has been modified.'')
             (''File modified: '' @ src_path event) ''modified'' (src_path event)
             (feed getsize lib current_time event h))"

section \<open>Concrete collaborators\<close>

text \<open>
  The theorems below hold for every library and every operating system. To evaluate the
  model on concrete runs, this section fixes small instances of the parameters: a
  library whose \<open>fit\<close> always raises; a library that validates the contamination as
  scikit-learn does (it must lie in \<open>(0, 1/2]\<close>), remembers the training samples and
  predicts \<open>-1\<close> for a vector it has not seen; a library that validates in the same
  way and predicts \<open>-1\<close> for the vectors whose file size is among the largest
  fraction \<open>c\<close> of the training samples; a matcher for patterns built from
  literal characters, \<open>*\<close> and \<open>?\<close>; and an operating system that is a table of file
  modes and a table of running processes.
\<close>

definition never_fits :: "unit sklearn" where
  "never_fits = \<lparr>fit = (\<lambda>c X. None), predict = (\<lambda>m v. 1)\<rparr>"

definition seen_before :: "feature_vector list sklearn" where
  "seen_before =
     \<lparr>fit = (\<lambda>c X. if 0 < c \<and> c \<le> 1 / 2 \<and> X \<noteq> [] then Some X else None),
      predict = (\<lambda>X v. if v \<in> set X then 1 else - 1)\<rparr>"

definition file_size :: "feature_vector \<Rightarrow> int" where
  "file_size v = (case v of [k, s] \<Rightarrow> s | _ \<Rightarrow> 0)"

definition top_fraction :: "(real \<times> feature_vector list) sklearn" where
  "top_fraction =
     \<lparr>fit = (\<lambda>c X. if 0 < c \<and> c \<le> 1 / 2 \<and> X \<noteq> [] then Some (c, X) else None),
      predict = (\<lambda>(c, X) v.
        if real (length (filter (\<lambda>x. file_size v \<le> file_size x) X)) \<le> c * real (length X)
        then - 1 else 1)\<rparr>"

fun glob :: "string \<Rightarrow> string \<Rightarrow> bool" where
  "glob [] [] = True"
| "glob (c # cs) [] = False"
| "glob [] (p # ps) = (p = CHR ''*'' \<and> glob [] ps)"
| "glob (c # cs) (p # ps) =
     (if p = CHR ''*'' then glob (c # cs) ps \<or> glob cs (p # ps)
      else (p = CHR ''?'' \<or> p = c) \<and> glob cs ps)"

record world =
  files :: "(path \<times> nat) list"
  running :: "(pid \<times> path list option) list"

definition table_os :: "world os_iface" where
  "table_os =
     \<lparr>path_exists = (\<lambda>w p. p \<in> set (map fst (files w))),
      chmod = (\<lambda>p m w.
        if p \<in> set (map fst (files w))
        then (None, w\<lparr>files := map (\<lambda>(q, k). if q = p then (q, m) else (q, k)) (files w)\<rparr>)
        else (Some OSError, w)),
      shutil_move = (\<lambda>p q w.
        if p \<in> set (map fst (files w))
        then (None, w\<lparr>files := map (\<lambda>(r, k). if r = p then (q, k) else (r, k))
                                 (filter (\<lambda>(r, k). r \<noteq> q) (files w))\<rparr>)
        else (Some OSError, w)),
      walk_files = (\<lambda>w d. filter (\<lambda>p. take (length d) p = d) (map fst (files w))),
      process_iter = running,
      process_lookup = (\<lambda>w pid. pid \<in> set (map fst (running w))),
      terminate = (\<lambda>pid w. (None, w\<lparr>running := filter (\<lambda>(q, fs). q \<noteq> pid) (running w)\<rparr>))\<rparr>"

text \<open>Detector states used to run the model on concrete events.\<close>

definition engine0 :: response_engine where
  "engine0 = \<lparr>quarantine_dir = ''./quarantine'', dry_run = False\<rparr>"

definition one_queued :: "unit detector" where
  "one_queued = (init 0 2 60 30 1000 (Some engine0))
     \<lparr>event_queue := [(1000000, [3, 10], Some ''/tmp/a.txt'')], samples := [[3, 10]]\<rparr>"

definition three_queued :: "unit detector" where
  "three_queued = (init 0 2 60 30 1000 (Some engine0))
     \<lparr>event_queue := [(1000000, [3, 10], Some ''/tmp/a.txt''), (2000000, [3, 5], None),
                       (3000000, [3, 10], Some ''/tmp/a.txt'')],
      samples := [[3, 10], [3, 5], [3, 10]]\<rparr>"


definition two_old :: "unit detector" where
  "two_old = (init 0 10 60 30 1000 (Some engine0))
     \<lparr>event_queue := [(0, [3, 10], Some ''/tmp/a.txt''), (5000000, [3, 5], None)],
      samples := [[3, 10], [3, 5]]\<rparr>"

definition after_two :: "unit detector" where
  "after_two =
     state_of (add_event never_fits 2000000 [3, 10] (Some ''/tmp/a.txt'')
       (state_of (add_event never_fits 1000000 [3, 10] (Some ''/tmp/a.txt'')
          (init 0 1 60 30 1000 (Some engine0)))))"

definition warm :: "unit detector" where
  "warm = (init 0 1 60 30 1000 None)
     \<lparr>event_queue := [(1000000, [3, 10], Some ''/tmp/a.txt'')], samples := [[3, 10]]\<rparr>"

definition ready :: "feature_vector list detector" where
  "ready = (init 0 1 60 30 1000 None)
     \<lparr>event_queue := [(1000000, [3, 10], None), (2000000, [3, 20], None)],
      samples := [[3, 10], [3, 20]]\<rparr>"

text \<open>
  Four quick events on one file, the detector they leave behind, and that detector
  after an unusually large file arrives 200 seconds later.
\<close>

definition first_calls :: "entry list" where
  "first_calls =
     [(1000000, [3, 10], Some ''/tmp/a.txt''), (2000000, [3, 10], Some ''/tmp/a.txt''),
      (3000000, [3, 10], Some ''/tmp/a.txt''), (4000000, [3, 10], Some ''/tmp/a.txt'')]"

definition calm :: "(real \<times> feature_vector list) detector" where
  "calm = (init 0 2 60 30 1000 (Some engine0))
     \<lparr>samples := [[3, 10], [3, 10], [3, 10], [3, 10]]\<rparr>"

definition alerted :: "(real \<times> feature_vector list) detector" where
  "alerted = calm
     \<lparr>event_queue := [(200000000, [0, 999999], Some ''/tmp/big.bin'')],
      samples := [[3, 10], [3, 10], [3, 10], [3, 10], [0, 999999]],
      model := Some (Forest (2 / 5)
        (Some (2 / 5, [[3, 10], [3, 10], [3, 10], [3, 10], [0, 999999]]))),
      last_trained := 200000000\<rparr>"

text \<open>An engine in dry-run mode, a small operating system and a handler with events.\<close>

definition dry_engine :: response_engine where
  "dry_engine = \<lparr>quarantine_dir = ''./quarantine'', dry_run = True\<rparr>"

definition small_world :: world where
  "small_world =
     \<lparr>files = [(''/tmp/a.txt'', 420), (''/home/u/notes.txt'', 420)],
      running = [(7, Some [''/tmp/a.txt'']), (8, None), (9, Some [''/home/u/notes.txt''])]\<rparr>"

definition watcher :: "unit handler" where
  "watcher = \<lparr>ignore_patterns = [''*.tmp'', ''*.log''],
              anomaly_detector = Some (init 0 10 60 30 1000 (Some engine0))\<rparr>"

definition renamed :: fs_event where
  "renamed = \<lparr>event_class = FileMovedEvent, src_path = ''/tmp/a.tmp'',
              dest_path = ''/tmp/a.txt''\<rparr>"

definition scratch_written :: fs_event where
  "scratch_written = \<lparr>event_class = FileModifiedEvent, src_path = ''/tmp/a.tmp'',
              dest_path = ''''\<rparr>"

definition log_rotated :: fs_event where
  "log_rotated = \<lparr>event_class = FileMovedEvent, src_path = ''/var/app.log'',
              dest_path = ''/var/app.1.log''\<rparr>"

definition folder_renamed :: fs_event where
  "folder_renamed = \<lparr>event_class = OtherEvent, src_path = ''/tmp/a.tmp'',
              dest_path = ''/tmp/a.txt''\<rparr>"

section \<open>Properties of the detector\<close>

lemmas run_defs = add_event_def retrain_def record_event_def timedelta_seconds_def
  anomaly_detection_def handle_threat_def respond_def affected_files_def dirname_def
  init_def deque_append_def train_model_def Let_def

lemma retrain_keeps:
  "event_queue (state_of (retrain lib t d)) = event_queue d"
  "threshold (state_of (retrain lib t d)) = threshold d"
  "time_window (state_of (retrain lib t d)) = time_window d"
  "train_interval (state_of (retrain lib t d)) = train_interval d"
  "max_samples (state_of (retrain lib t d)) = max_samples d"
  "samples (state_of (retrain lib t d)) = samples d"
  "response_engine (state_of (retrain lib t d)) = response_engine d"
  by (simp_all add: retrain_def train_model_def Let_def split: result.splits)

lemma record_event_keeps:
  "threshold (record_event t v p d) = threshold d"
  "time_window (record_event t v p d) = time_window d"
  "train_interval (record_event t v p d) = train_interval d"
  "max_samples (record_event t v p d) = max_samples d"
  "last_trained (record_event t v p d) = last_trained d"
  "model (record_event t v p d) = model d"
  "response_engine (record_event t v p d) = response_engine d"
  by (simp_all add: record_event_def Let_def)

lemma retrain_no_engine_call:
  "filter is_engine_call (effects_of (retrain lib t d)) = []"
  by (simp add: retrain_def train_model_def Let_def split: result.splits)

lemma set_truthy_paths:
  "set (truthy_paths q) = {f. f \<noteq> [] \<and> (\<exists>t v. (t, v, Some f) \<in> set q)}"
  by (induction q rule: truthy_paths.induct) auto

lemma respond_medium:
  "int n \<ge> threshold d \<Longrightarrow> int n < threshold d * 2 \<Longrightarrow>
   respond p n d =
     (Print (THREAT_MEDIUM_locking (length (affected_files (event_queue d))))
        # map (\<lambda>f. Engine (Lock_file f)) (affected_files (event_queue d)), d)"
  by (simp add: respond_def Let_def)

lemma respond_high:
  "int n \<ge> threshold d * 2 \<Longrightarrow>
   respond p n d =
     (Print (THREAT_MEDIUM_locking (length (affected_files (event_queue d))))
        # map (\<lambda>f. Engine (Lock_file f)) (affected_files (event_queue d))
        @ Print (THREAT_HIGH_quarantining (length (affected_files (event_queue d))))
        # map (\<lambda>f. Engine (Quarantine_file f)) (affected_files (event_queue d))
        @ [Engine (Lock_directory (dirname p)), Engine (Kill_offending_process (dirname p))],
      d\<lparr>event_queue := []\<rparr>)"
proof -
  assume h: "int n \<ge> threshold d * 2"
  have "int n \<ge> threshold d" using h by (cases "threshold d \<le> 0") auto
  with h show ?thesis by (simp add: respond_def Let_def)
qed


lemma retrain_Returned_keeps:
  assumes "retrain lib t d1 = Returned es d2"
  shows "event_queue d2 = event_queue d1" "threshold d2 = threshold d1"
    "response_engine d2 = response_engine d1" "time_window d2 = time_window d1"
    "train_interval d2 = train_interval d1" "max_samples d2 = max_samples d1"
    "samples d2 = samples d1"
    "filter is_engine_call es = []"
  using retrain_keeps[of lib t d1] retrain_no_engine_call[of lib t d1] assms by simp_all

lemma add_event_escalates:
  assumes "retrain lib t (record_event t v path d) = Returned es d2"
    and "anomaly_detection lib v d2 = Returned es' b"
    and "b \<or> threshold d \<le> int (length (event_queue (record_event t v path d)))"
  shows "add_event lib t v path d =
           Returned (es @ es' @ fst (handle_threat path (length (event_queue d2)) d2))
                    (snd (handle_threat path (length (event_queue d2)) d2))"
  using assms retrain_Returned_keeps[OF assms(1)]
  by (simp add: add_event_def record_event_keeps split: prod.splits)

subsection \<open>Escalation\<close>

text \<open>
  C10. When the path of the triggering event is \<open>None\<close>, or no response engine is
  attached, \<open>_handle_threat\<close> invokes no containment action and leaves the detector,
  its queue included, as it was, whatever the burst count is; it prints its debug line
  and the warning.
\<close>

theorem handle_threat_guard:
  "path = None \<or> response_engine d = None \<Longrightarrow>
   handle_threat path event_count d =
     ([Print DEBUG_Using_detector, Print WARN_no_response_engine], d)"
  by (auto simp: handle_threat_def split: option.splits)

theorem handle_threat_guard_witness:
  "(None = (None :: path option) \<or> response_engine three_queued = None)
   \<and> 2 * threshold three_queued \<le> 4
   \<and> handle_threat None 4 three_queued =
       ([Print DEBUG_Using_detector, Print WARN_no_response_engine], three_queued)"
  using handle_threat_guard [of None three_queued 4]
  by (simp add: three_queued_def init_def)

text \<open>
  C1, as the code has it. When a response engine is attached, the path of the event is
  not empty, and neither the retraining nor the classification of this call raises:
  an event whose burst count after insertion equals the threshold, and is below twice
  the threshold, makes \<open>add_event\<close> call \<open>lock_file\<close> once on each distinct non-empty
  path of the queue and nothing else, and the queue stays; an event whose burst count is
  at least twice the threshold makes it call \<open>lock_file\<close> on each of them, then
  \<open>quarantine_file\<close> on each of them, then \<open>lock_directory\<close> and
  \<open>kill_offending_process\<close> on the directory of the event's path, and the queue is
  emptied.
\<close>

theorem escalation_tiers:
  assumes "retrain lib t (record_event t v (Some p) d) = Returned es d2"
    and "anomaly_detection lib v d2 = Returned es' b"
    and "response_engine d \<noteq> None" and "p \<noteq> []"
  shows "(let q = event_queue (record_event t v (Some p) d);
              locks = Print (THREAT_MEDIUM_locking (length (affected_files q)))
                      # map (\<lambda>f. Engine (Lock_file f)) (affected_files q);
              high = Print (THREAT_HIGH_quarantining (length (affected_files q)))
                      # map (\<lambda>f. Engine (Quarantine_file f)) (affected_files q)
                      @ [Engine (Lock_directory (dirname p)),
                         Engine (Kill_offending_process (dirname p))]
          in (int (length q) = threshold d \<and> int (length q) < 2 * threshold d \<longrightarrow>
                add_event lib t v (Some p) d =
                  Returned (es @ es' @ Print DEBUG_Using_detector # locks) d2
                \<and> event_queue d2 = q)
           \<and> (2 * threshold d \<le> int (length q) \<longrightarrow>
                add_event lib t v (Some p) d =
                  Returned (es @ es' @ Print DEBUG_Using_detector # locks @ high)
                           (d2\<lparr>event_queue := []\<rparr>))
           \<and> distinct (affected_files q)
           \<and> set (affected_files q) = {f. f \<noteq> [] \<and> (\<exists>t' v'. (t', v', Some f) \<in> set q)})"
proof -
  let ?d1 = "record_event t v (Some p) d"
  note k = retrain_Returned_keeps[OF assms(1)]
  have eng: "response_engine d2 \<noteq> None" using k assms(3) by (simp add: record_event_keeps)
  have thr: "threshold d2 = threshold d" using k by (simp add: record_event_keeps)
  have ht: "handle_threat (Some p) n d2 =
      (Print DEBUG_Using_detector # fst (respond p n d2), snd (respond p n d2))" for n
    using eng assms(4) by (auto simp: handle_threat_def split: prod.splits)
  have m: "add_event lib t v (Some p) d =
      Returned (es @ es' @ Print DEBUG_Using_detector # locks) d2"
    if "int (length (event_queue ?d1)) = threshold d"
      "int (length (event_queue ?d1)) < 2 * threshold d"
      "locks = Print (THREAT_MEDIUM_locking (length (affected_files (event_queue ?d1))))
                      # map (\<lambda>f. Engine (Lock_file f)) (affected_files (event_queue ?d1))"
    for locks
  proof -
    have "respond p (length (event_queue d2)) d2 = (locks, d2)"
      using respond_medium[of d2 "length (event_queue d2)" p] that k(1) thr by simp
    then show ?thesis
      using add_event_escalates[OF assms(1,2)] that(1) ht by (simp add: k(1))
  qed
  have h: "add_event lib t v (Some p) d =
      Returned (es @ es' @ Print DEBUG_Using_detector # locks @ high) (d2\<lparr>event_queue := []\<rparr>)"
    if "2 * threshold d \<le> int (length (event_queue ?d1))"
      "locks = Print (THREAT_MEDIUM_locking (length (affected_files (event_queue ?d1))))
                      # map (\<lambda>f. Engine (Lock_file f)) (affected_files (event_queue ?d1))"
      "high = Print (THREAT_HIGH_quarantining (length (affected_files (event_queue ?d1))))
                      # map (\<lambda>f. Engine (Quarantine_file f)) (affected_files (event_queue ?d1))
                      @ [Engine (Lock_directory (dirname p)),
                         Engine (Kill_offending_process (dirname p))]"
    for locks high
  proof -
    have ge: "threshold d \<le> int (length (event_queue ?d1))"
      using that(1) by (cases "threshold d \<le> 0") auto
    have "respond p (length (event_queue d2)) d2 = (locks @ high, d2\<lparr>event_queue := []\<rparr>)"
      using respond_high[of d2 "length (event_queue d2)" p] that k(1) thr by simp
    then show ?thesis
      using add_event_escalates[OF assms(1,2)] ge ht by (simp add: k(1))
  qed
  show ?thesis
    unfolding Let_def using m h k(1)
    by (simp add: affected_files_def set_truthy_paths)
qed

theorem escalation_tiers_witness:
  "effects_of (add_event never_fits 2000000 [3, 5] (Some ''/tmp/b.txt'') one_queued) =
     [Print DEBUG_Using_detector, Print (THREAT_MEDIUM_locking 2),
      Engine (Lock_file ''/tmp/a.txt''), Engine (Lock_file ''/tmp/b.txt'')]
   \<and> length (event_queue (state_of
        (add_event never_fits 2000000 [3, 5] (Some ''/tmp/b.txt'') one_queued))) = 2
   \<and> effects_of (add_event never_fits 4000000 [0, 0] (Some ''/tmp/b.txt'') three_queued) =
     [Print DEBUG_Using_detector, Print (THREAT_MEDIUM_locking 2),
      Engine (Lock_file ''/tmp/a.txt''), Engine (Lock_file ''/tmp/b.txt''),
      Print (THREAT_HIGH_quarantining 2),
      Engine (Quarantine_file ''/tmp/a.txt''), Engine (Quarantine_file ''/tmp/b.txt''),
      Engine (Lock_directory ''/tmp''), Engine (Kill_offending_process ''/tmp'')]
   \<and> event_queue (state_of
        (add_event never_fits 4000000 [0, 0] (Some ''/tmp/b.txt'') three_queued)) = []"
proof -
  let ?m = "record_event 2000000 [3, 5] (Some ''/tmp/b.txt'') one_queued"
  let ?h = "record_event 4000000 [0, 0] (Some ''/tmp/b.txt'') three_queued"
  have m1: "retrain never_fits 2000000 ?m = Returned [] ?m"
    by (simp add: one_queued_def run_defs)
  have m2: "anomaly_detection never_fits [3, 5] ?m = Returned [] False"
    by (simp add: one_queued_def run_defs)
  have m3: "response_engine one_queued \<noteq> None" by (simp add: one_queued_def init_def)
  have h1: "retrain never_fits 4000000 ?h = Returned [] ?h"
    by (simp add: three_queued_def run_defs)
  have h2: "anomaly_detection never_fits [0, 0] ?h = Returned [] False"
    by (simp add: three_queued_def run_defs)
  have h3: "response_engine three_queued \<noteq> None" by (simp add: three_queued_def init_def)
  have ne: "''/tmp/b.txt'' \<noteq> []" by simp
  show ?thesis
    using escalation_tiers[OF m1 m2 m3 ne] escalation_tiers[OF h1 h2 h3 ne]
    by (simp add: one_queued_def three_queued_def run_defs)
qed

text \<open>
  The claim does not hold of every event: one that arrives without a path, as the
  default argument of \<open>add_event\<close> has it, and brings the burst count to the threshold
  locks nothing, although the queue holds a path.
\<close>

theorem escalation_without_path_counterexample:
  "int (length (event_queue (record_event 2000000 [3, 5] None one_queued)))
     = threshold one_queued
   \<and> affected_files (event_queue (record_event 2000000 [3, 5] None one_queued))
     = [''/tmp/a.txt'']
   \<and> add_event never_fits 2000000 [3, 5] None one_queued =
       Returned [Print DEBUG_Using_detector, Print WARN_no_response_engine]
                (record_event 2000000 [3, 5] None one_queued)"
  by (simp add: one_queued_def run_defs)




lemma first_calls_reach_calm:
  "run top_fraction first_calls (init 0 2 60 30 1000 (Some engine0)) =
   Returned
     [Print DEBUG_Using_detector, Print (THREAT_MEDIUM_locking 1),
      Engine (Lock_file ''/tmp/a.txt''),
      Print DEBUG_Using_detector, Print (THREAT_MEDIUM_locking 1),
      Engine (Lock_file ''/tmp/a.txt''),
      Print DEBUG_Using_detector, Print (THREAT_MEDIUM_locking 1),
      Engine (Lock_file ''/tmp/a.txt''), Print (THREAT_HIGH_quarantining 1),
      Engine (Quarantine_file ''/tmp/a.txt''), Engine (Lock_directory ''/tmp''),
      Engine (Kill_offending_process ''/tmp'')] calm"
  by (simp add: first_calls_def calm_def engine0_def top_fraction_def run_defs)

lemma outlier_after_idle:
  "add_event top_fraction 200000000 [0, 999999] (Some ''/tmp/big.bin'') calm =
     Returned
       [Fit (2 / 5) [[3, 10], [3, 10], [3, 10], [3, 10], [0, 999999]],
        Predict [0, 999999], Print ML_Anomaly_detected, Print DEBUG_Using_detector]
       alerted"
  by (simp add: alerted_def calm_def engine0_def top_fraction_def file_size_def run_defs)

lemma outlier_again:
  "add_event top_fraction 201000000 [0, 999999] (Some ''/tmp/big.bin'') alerted =
     Returned
       [Predict [0, 999999], Print ML_Anomaly_detected, Print DEBUG_Using_detector,
        Print (THREAT_MEDIUM_locking 1), Engine (Lock_file ''/tmp/big.bin'')]
       (alerted\<lparr>event_queue := [(200000000, [0, 999999], Some ''/tmp/big.bin''),
                                   (201000000, [0, 999999], Some ''/tmp/big.bin'')],
                 samples := [[3, 10], [3, 10], [3, 10], [3, 10], [0, 999999],
                             [0, 999999]]\<rparr>)"
  by (simp add: alerted_def calm_def engine0_def top_fraction_def file_size_def run_defs)



subsection \<open>The time window\<close>

lemma seconds_no_wrap:
  "0 \<le> x \<Longrightarrow> x < 86400000000 \<Longrightarrow> timedelta_seconds x = x div 1000000"
  by (simp add: timedelta_seconds_def)

lemma popleft_old_filter:
  "sorted (map fst q) \<Longrightarrow> \<forall>e\<in>set q. fst e \<le> t \<and> t - fst e < 86400000000 \<Longrightarrow>
   popleft_old t w q = filter (\<lambda>e. (t - fst e) div 1000000 \<le> w) q"
proof (induction q)
  case Nil
  then show ?case by simp
next
  case (Cons e q)
  have s: "timedelta_seconds (t - fst e) = (t - fst e) div 1000000"
    using Cons.prems(2) by (intro seconds_no_wrap) auto
  show ?case
  proof (cases "(t - fst e) div 1000000 > w")
    case True
    then show ?thesis using Cons s by simp
  next
    case False
    have "\<forall>x\<in>set q. (t - fst x) div 1000000 \<le> w"
    proof
      fix x assume "x \<in> set q"
      then have "fst e \<le> fst x" using Cons.prems(1) by auto
      then have "(t - fst x) div 1000000 \<le> (t - fst e) div 1000000"
        by (intro zdiv_mono1) auto
      then show "(t - fst x) div 1000000 \<le> w" using False by linarith
    qed
    then have "filter (\<lambda>e. (t - fst e) div 1000000 \<le> w) q = q" by simp
    then show ?thesis using False s by simp
  qed
qed

lemma quotient_bound:
  "(x :: int) = 1000000 * q + r \<Longrightarrow> 0 \<le> r \<Longrightarrow> r < 1000000 \<Longrightarrow>
   (q \<le> w) = (x < (w + 1) * 1000000)"
  by (auto simp: algebra_simps)

lemma whole_seconds_lt:
  "((x :: int) div 1000000 \<le> w) = (x < (w + 1) * 1000000)"
  by (rule quotient_bound [of x _ "x mod 1000000"]) simp_all

lemma whole_seconds_le:
  "(x :: int) \<le> w * 1000000 \<or> (w + 1) * 1000000 \<le> x \<Longrightarrow>
   (x div 1000000 \<le> w) = (x \<le> w * 1000000)"
  unfolding whole_seconds_lt by (auto simp: algebra_simps)

lemma record_event_queue:
  "event_queue (record_event t v p d) =
     popleft_old t (time_window d) (event_queue d @ [(t, v, p)])"
  by (simp add: record_event_def Let_def)

text \<open>
  C2, as the code has it. The queue holds what earlier calls left in it, not every
  event ever recorded: the High tier empties it. Where the queue is in time order and
  no entry is a day or more old, nor has an age strictly between the window and the
  window plus one second, the queue after the recording step of \<open>add_event\<close> consists
  of the entries of the queue before, and the new one, whose age is at most
  \<open>time_window\<close> seconds, and its length is their number; if moreover the window is
  not negative and every entry of the queue before is older than the window, only the
  new entry is left.
\<close>

theorem window_queue_by_age:
  assumes "sorted (map fst (event_queue d))"
    and "\<forall>e\<in>set (event_queue d). fst e \<le> t \<and> t - fst e < 86400000000
           \<and> (t - fst e \<le> time_window d * 1000000
                \<or> (time_window d + 1) * 1000000 \<le> t - fst e)"
  shows "event_queue (record_event t v p d) =
           filter (\<lambda>e. t - fst e \<le> time_window d * 1000000) (event_queue d @ [(t, v, p)])
         \<and> length (event_queue (record_event t v p d)) =
           length (filter (\<lambda>e. t - fst e \<le> time_window d * 1000000)
                     (event_queue d @ [(t, v, p)]))
         \<and> (0 \<le> time_window d
              \<and> (\<forall>e\<in>set (event_queue d). time_window d * 1000000 < t - fst e)
             \<longrightarrow> event_queue (record_event t v p d) = [(t, v, p)])"
proof -
  let ?q = "event_queue d @ [(t, v, p)]"
  have srt: "sorted (map fst ?q)"
    using assms by (auto simp: sorted_append)
  have bnd: "\<forall>e\<in>set ?q. fst e \<le> t \<and> t - fst e < 86400000000"
    using assms(2) by auto
  have alt: "\<forall>e\<in>set ?q. t - fst e \<le> time_window d * 1000000
                \<or> (time_window d + 1) * 1000000 \<le> t - fst e"
    using assms(2) by (cases "0 \<le> time_window d") auto
  have "popleft_old t (time_window d) ?q =
          filter (\<lambda>e. (t - fst e) div 1000000 \<le> time_window d) ?q"
    by (rule popleft_old_filter [OF srt bnd])
  also have "\<dots> = filter (\<lambda>e. t - fst e \<le> time_window d * 1000000) ?q"
    by (rule filter_cong [OF refl]) (use alt whole_seconds_le in blast)
  finally have eq: "event_queue (record_event t v p d) =
      filter (\<lambda>e. t - fst e \<le> time_window d * 1000000) ?q"
    by (simp add: record_event_queue)
  have gap: "event_queue (record_event t v p d) = [(t, v, p)]"
    if "0 \<le> time_window d"
      "\<forall>e\<in>set (event_queue d). time_window d * 1000000 < t - fst e"
  proof -
    have "filter (\<lambda>e. t - fst e \<le> time_window d * 1000000) (event_queue d) = []"
      using that(2) by (auto simp: filter_empty_conv)
    then show ?thesis using eq that(1) by simp
  qed
  show ?thesis using eq gap by simp
qed

theorem window_queue_by_age_witness:
  "event_queue (record_event 30000000 [1, 0] (Some ''/tmp/c.txt'') two_old) =
     [(0, [3, 10], Some ''/tmp/a.txt''), (5000000, [3, 5], None),
      (30000000, [1, 0], Some ''/tmp/c.txt'')]
   \<and> event_queue (record_event 100000000 [1, 0] (Some ''/tmp/c.txt'') two_old) =
     [(100000000, [1, 0], Some ''/tmp/c.txt'')]"
proof -
  have s: "sorted (map fst (event_queue two_old))"
    by (simp add: two_old_def init_def)
  have a: "\<forall>e\<in>set (event_queue two_old). fst e \<le> 30000000 \<and> 30000000 - fst e < 86400000000
           \<and> (30000000 - fst e \<le> time_window two_old * 1000000
                \<or> (time_window two_old + 1) * 1000000 \<le> 30000000 - fst e)"
    by (simp add: two_old_def init_def)
  have b: "\<forall>e\<in>set (event_queue two_old). fst e \<le> 100000000 \<and> 100000000 - fst e < 86400000000
           \<and> (100000000 - fst e \<le> time_window two_old * 1000000
                \<or> (time_window two_old + 1) * 1000000 \<le> 100000000 - fst e)"
    by (simp add: two_old_def init_def)
  show ?thesis
    using window_queue_by_age [OF s a, of "[1, 0]" "Some ''/tmp/c.txt''"]
      window_queue_by_age [OF s b, of "[1, 0]" "Some ''/tmp/c.txt''"]
    by (simp add: two_old_def init_def)
qed

text \<open>
  The claim as stated fails on a burst: with threshold 1, the second event within two
  seconds reaches the High tier and the queue is emptied, although both events are
  younger than the window of 60 seconds; after the third event the queue has one entry.
\<close>

theorem queue_cleared_counterexample:
  "event_queue after_two = []
   \<and> (2000000 :: int) - 1000000 \<le> time_window after_two * 1000000
   \<and> (2000000 :: int) - 2000000 \<le> time_window after_two * 1000000
   \<and> length (event_queue (state_of
        (add_event never_fits 3000000 [3, 10] (Some ''/tmp/a.txt'') after_two))) = 1"
  by (simp add: after_two_def engine0_def run_defs)

text \<open>
  Outside the hypotheses of the last theorem the comparison of lines 47 and 48
  reads \<open>timedelta.seconds\<close>, which has neither the days nor the microseconds of the
  age: entries that are one day and five seconds old, or 60.5 seconds old, stay in a
  window of 60 seconds.
\<close>

lemma seconds_drops_whole_days:
  "event_queue (record_event 86405000000 [1, 0] None two_old) =
     [(0, [3, 10], Some ''/tmp/a.txt''), (5000000, [3, 5], None), (86405000000, [1, 0], None)]"
  by (simp add: two_old_def run_defs)

lemma seconds_drops_microseconds:
  "event_queue (record_event 60500000 [1, 0] None two_old) =
     [(0, [3, 10], Some ''/tmp/a.txt''), (5000000, [3, 5], None), (60500000, [1, 0], None)]"
  by (simp add: two_old_def run_defs)

subsection \<open>Training\<close>

lemma record_event_samples:
  "samples (record_event t v p d) = deque_append (max_samples d) (samples d) v"
  by (simp add: record_event_def Let_def)

lemma seconds_within:
  "0 \<le> x \<Longrightarrow> x \<le> i * 1000000 \<Longrightarrow> timedelta_seconds x \<le> i"
proof -
  assume a: "0 \<le> x" "x \<le> i * 1000000"
  have "x div 1000000 \<le> i" using a(2) unfolding whole_seconds_lt by simp
  moreover have "0 \<le> x div 1000000" using a(1) by simp
  then have "(x div 1000000) mod 86400 \<le> x div 1000000"
    by (rule zmod_le_nonneg_dividend)
  ultimately show ?thesis by (simp add: timedelta_seconds_def)
qed

text \<open>
  C9. Whenever \<open>_train_model\<close> gets past its guard, with a threshold of at least 1
  as the configuration requires, it makes one call of \<open>fit\<close>, on the whole sample
  buffer and on an estimator whose contamination is the threshold divided by the number
  of samples (in exact arithmetic); that number is positive, at most one half and so
  below 1.
\<close>

theorem contamination_range:
  assumes "1 \<le> threshold d" and "2 * threshold d \<le> int (length (samples d))"
  shows "(let c = real_of_int (threshold d) / real (length (samples d)) in
           effects_of (train_model lib d) = [Fit c (samples d)]
           \<and> model (state_of (train_model lib d)) = Some (Forest c (fit lib c (samples d)))
           \<and> 0 < c \<and> c \<le> 1 / 2 \<and> c < 1)"
proof -
  let ?n = "length (samples d)"
  let ?c = "real_of_int (threshold d) / real ?n"
  have n: "0 < ?n" using assms by auto
  have pos: "0 < ?c" using assms(1) n by simp
  have "2 * real_of_int (threshold d) \<le> real ?n"
    using assms(2) by (metis of_int_le_iff of_int_mult of_int_numeral of_int_of_nat_eq)
  then have half: "?c \<le> 1 / 2" using n by (simp add: field_simps)
  have tm: "effects_of (train_model lib d) = [Fit ?c (samples d)]
      \<and> model (state_of (train_model lib d)) = Some (Forest ?c (fit lib ?c (samples d)))"
    using assms(2) n by (simp add: train_model_def Let_def)
  have less: "?c < 1" using half by linarith
  show ?thesis using tm pos half less by (simp add: Let_def)
qed

theorem contamination_range_witness:
  "effects_of (train_model seen_before ready) = [Fit (1 / 2) [[3, 10], [3, 20]]]
   \<and> model (state_of (train_model seen_before ready))
       = Some (Forest (1 / 2) (Some [[3, 10], [3, 20]]))
   \<and> (0 :: real) < 1 / 2"
proof -
  have a: "1 \<le> threshold ready" by (simp add: ready_def init_def)
  have b: "2 * threshold ready \<le> int (length (samples ready))"
    by (simp add: ready_def init_def)
  show ?thesis
    using contamination_range [OF a b, of seen_before]
    by (simp add: ready_def seen_before_def init_def Let_def)
qed

text \<open>
  C4, as the code has it. \<open>_train_model\<close> fits nothing and keeps the model while the
  buffer holds fewer than twice the threshold samples; a call no later than
  \<open>train_interval\<close> seconds after \<open>last_trained\<close> does nothing at all; and
  \<open>last_trained\<close> is set to the time of the call whenever the interval has passed and
  \<open>_train_model\<close> returns, whether it fitted a model or skipped for lack of samples.
\<close>

theorem retrain_schedule:
  "(int (length (samples d)) < 2 * threshold d \<longrightarrow>
      train_model lib d = Returned [] d
      \<and> filter is_fit (effects_of (retrain lib t d)) = []
      \<and> model (state_of (retrain lib t d)) = model d)
   \<and> (last_trained d \<le> t \<and> t - last_trained d \<le> train_interval d * 1000000 \<longrightarrow>
      retrain lib t d = Returned [] d)
   \<and> (\<not> raised (retrain lib t d) \<longrightarrow>
      last_trained (state_of (retrain lib t d)) =
        (if timedelta_seconds (t - last_trained d) > train_interval d then t
         else last_trained d))"
proof (intro conjI impI)
  assume few: "int (length (samples d)) < 2 * threshold d"
  then show tm: "train_model lib d = Returned [] d"
    by (simp add: train_model_def)
  show "filter is_fit (effects_of (retrain lib t d)) = []"
    using tm by (simp add: retrain_def)
  show "model (state_of (retrain lib t d)) = model d"
    using tm by (simp add: retrain_def)
next
  assume "last_trained d \<le> t \<and> t - last_trained d \<le> train_interval d * 1000000"
  then have "timedelta_seconds (t - last_trained d) \<le> train_interval d"
    by (intro seconds_within) auto
  then show "retrain lib t d = Returned [] d"
    by (simp add: retrain_def)
next
  assume "\<not> raised (retrain lib t d)"
  then show "last_trained (state_of (retrain lib t d)) =
        (if timedelta_seconds (t - last_trained d) > train_interval d then t
         else last_trained d)"
    by (auto simp: retrain_def train_model_def Let_def split: result.splits if_splits)
qed

theorem retrain_schedule_witness:
  "train_model never_fits one_queued = Returned [] one_queued
   \<and> retrain never_fits 30000000 one_queued = Returned [] one_queued
   \<and> last_trained (state_of (retrain seen_before 31000000 ready)) = 31000000
   \<and> effects_of (retrain seen_before 31000000 ready) = [Fit (1 / 2) [[3, 10], [3, 20]]]"
proof -
  have a: "int (length (samples one_queued)) < 2 * threshold one_queued"
    by (simp add: one_queued_def init_def)
  have b: "last_trained one_queued \<le> 30000000
      \<and> 30000000 - last_trained one_queued \<le> train_interval one_queued * 1000000"
    by (simp add: one_queued_def init_def)
  have c: "\<not> raised (retrain seen_before 31000000 ready)"
    by (simp add: ready_def seen_before_def run_defs)
  show ?thesis
    using retrain_schedule [of one_queued never_fits 30000000] a b
      retrain_schedule [of ready seen_before 31000000] c
    by (simp add: ready_def seen_before_def run_defs)
qed

text \<open>
  \<open>last_trained\<close> is not replaced exactly when a retraining occurs: with one sample and
  threshold 2, a call 31 seconds after the last one fits nothing and still moves
  \<open>last_trained\<close>.
\<close>

theorem timer_reset_without_fit_counterexample:
  "retrain never_fits 31000000 one_queued = Returned [] (one_queued\<lparr>last_trained := 31000000\<rparr>)
   \<and> last_trained one_queued = 0
   \<and> int (length (samples one_queued)) < 2 * threshold one_queued"
  by (simp add: one_queued_def run_defs)

text \<open>
  C3, as the code has it. Nothing in the detector catches an exception of \<open>fit\<close>. If
  \<open>fit\<close> raises in a retraining that is due, \<open>add_event\<close> raises with it after
  the call of \<open>fit\<close> and before any classification or escalation; the event stays
  recorded, \<open>last_trained\<close> keeps its value, the stored model is the new estimator,
  unfitted, in place of the previous one, and classifying with that state raises too.
\<close>

theorem failed_fit_propagates:
  assumes "timedelta_seconds (t - last_trained d) > train_interval d"
    and "threshold d * 2 \<le> int (length (samples (record_event t v p d)))"
    and "samples (record_event t v p d) \<noteq> []"
    and "fit lib (real_of_int (threshold d) / real (length (samples (record_event t v p d))))
           (samples (record_event t v p d)) = None"
  shows "(let d1 = record_event t v p d;
              c = real_of_int (threshold d) / real (length (samples d1));
              d' = d1\<lparr>model := Some (Forest c None)\<rparr>
          in add_event lib t v p d = Raised [Fit c (samples d1)] FitError d'
             \<and> last_trained d' = last_trained d
             \<and> anomaly_detection lib v' d' = Raised [Predict v'] NotFittedError False)"
proof -
  let ?d1 = "record_event t v p d"
  let ?c = "real_of_int (threshold d) / real (length (samples ?d1))"
  have tm: "train_model lib ?d1 =
      Raised [Fit ?c (samples ?d1)] FitError (?d1\<lparr>model := Some (Forest ?c None)\<rparr>)"
    using assms(2,3,4) by (simp add: train_model_def Let_def record_event_keeps)
  have rt: "retrain lib t ?d1 =
      Raised [Fit ?c (samples ?d1)] FitError (?d1\<lparr>model := Some (Forest ?c None)\<rparr>)"
    using assms(1) tm by (simp add: retrain_def record_event_keeps)
  have ae: "add_event lib t v p d =
      Raised [Fit ?c (samples ?d1)] FitError (?d1\<lparr>model := Some (Forest ?c None)\<rparr>)"
    using rt by (simp add: add_event_def)
  show ?thesis
    using ae by (simp add: Let_def anomaly_detection_def record_event_keeps)
qed

theorem failed_fit_propagates_witness:
  "add_event never_fits 40000000 [3, 10] (Some ''/tmp/a.txt'') warm =
     Raised [Fit (1 / 2) [[3, 10], [3, 10]]] FitError
       (warm\<lparr>event_queue := [(1000000, [3, 10], Some ''/tmp/a.txt''),
                                (40000000, [3, 10], Some ''/tmp/a.txt'')],
              samples := [[3, 10], [3, 10]],
              model := Some (Forest (1 / 2) None)\<rparr>)"
proof -
  have a: "timedelta_seconds (40000000 - last_trained warm) > train_interval warm"
    by (simp add: warm_def init_def timedelta_seconds_def)
  have b: "threshold warm * 2
      \<le> int (length (samples (record_event 40000000 [3, 10] (Some ''/tmp/a.txt'') warm)))"
    by (simp add: warm_def run_defs)
  have c: "samples (record_event 40000000 [3, 10] (Some ''/tmp/a.txt'') warm) \<noteq> []"
    by (simp add: warm_def run_defs)
  have d: "fit never_fits (real_of_int (threshold warm)
        / real (length (samples (record_event 40000000 [3, 10] (Some ''/tmp/a.txt'') warm))))
           (samples (record_event 40000000 [3, 10] (Some ''/tmp/a.txt'') warm)) = None"
    by (simp add: never_fits_def)
  show ?thesis
    using failed_fit_propagates [OF a b c d]
    by (simp add: warm_def run_defs)
qed

text \<open>
  So the claim fails where \<open>fit\<close> raises: the second event of a detector with
  threshold 1, forty seconds after its construction, makes \<open>add_event\<close> raise, and the
  detector that had no model now holds an unfitted one.
\<close>

theorem failed_fit_counterexample:
  "raised (add_event never_fits 40000000 [3, 10] (Some ''/tmp/a.txt'') warm)
   \<and> model warm = None
   \<and> model (state_of (add_event never_fits 40000000 [3, 10] (Some ''/tmp/a.txt'') warm))
       = Some (Forest (1 / 2) None)"
  by (simp add: warm_def never_fits_def run_defs)

subsection \<open>Classification\<close>

lemma handle_threat_keeps_model:
  "model (snd (handle_threat p n d)) = model d"
  by (simp add: handle_threat_def respond_def Let_def split: option.splits)

lemma handle_threat_prints_no_verdict:
  "Print ML_Anomaly_detected \<notin> set (fst (handle_threat p n d))"
  by (auto simp: handle_threat_def respond_def Let_def split: option.splits)

lemma handle_threat_fits_nothing:
  "filter is_fit (fst (handle_threat p n d)) = []"
  by (auto simp: handle_threat_def respond_def Let_def filter_empty_conv split: option.splits)

lemma retrain_Returned_model:
  assumes "retrain lib t d = Returned es d'"
  shows "Print ML_Anomaly_detected \<notin> set es"
    and "(model d' = None) = (model d = None \<and> filter is_fit es = [])"
    and "filter is_fit es = [] \<longrightarrow> model d' = model d"
    and "(model d = None \<or> (\<exists>c m. model d = Some (Forest c (Some m))))
         \<longrightarrow> (model d' = None \<or> (\<exists>c m. model d' = Some (Forest c (Some m))))"
  using assms
  by (auto simp: retrain_def train_model_def Let_def split: if_splits result.splits)

lemma anomaly_detection_effects:
  "anomaly_detection lib v d = Returned es b \<Longrightarrow>
   filter is_fit es = []
   \<and> (Print ML_Anomaly_detected \<in> set es)
      = (\<exists>c m. model d = Some (Forest c (Some m)) \<and> predict lib m v = - 1)"
  by (auto simp: anomaly_detection_def split: option.splits forest.splits if_splits)

lemma add_event_Returned:
  assumes "add_event lib t v p d = Returned es d'"
  shows "(Print ML_Anomaly_detected \<in> set es)
         = (\<exists>c m. model d' = Some (Forest c (Some m)) \<and> predict lib m v = - 1)"
    and "(model d' = None) = (model d = None \<and> filter is_fit es = [])"
    and "filter is_fit es = [] \<longrightarrow> model d' = model d"
    and "(model d = None \<or> (\<exists>c m. model d = Some (Forest c (Some m))))
         \<longrightarrow> (model d' = None \<or> (\<exists>c m. model d' = Some (Forest c (Some m))))"
proof -
  let ?d1 = "record_event t v p d"
  obtain es0 d2 where r: "retrain lib t ?d1 = Returned es0 d2"
    using assms by (auto simp: add_event_def split: result.splits)
  obtain es' b where a: "anomaly_detection lib v d2 = Returned es' b"
    using assms r by (auto simp: add_event_def split: result.splits)
  note rm = retrain_Returned_model [OF r]
  note am = anomaly_detection_effects [OF a]
  let ?h = "handle_threat p (length (event_queue d2)) d2"
  have shape: "(es = es0 @ es' @ fst ?h \<and> d' = snd ?h) \<or> (es = es0 @ es' \<and> d' = d2)"
    using assms r a by (auto simp: add_event_def Let_def split: if_splits prod.splits)
  have m: "model d' = model d2"
    using shape handle_threat_keeps_model [of p "length (event_queue d2)" d2] by auto
  have flag: "(Print ML_Anomaly_detected \<in> set es) = (Print ML_Anomaly_detected \<in> set es')"
    using shape rm(1) handle_threat_prints_no_verdict [of p "length (event_queue d2)" d2]
    by auto
  have fits: "filter is_fit es = filter is_fit es0"
    using shape am handle_threat_fits_nothing [of p "length (event_queue d2)" d2] by auto
  show "(Print ML_Anomaly_detected \<in> set es)
         = (\<exists>c m. model d' = Some (Forest c (Some m)) \<and> predict lib m v = - 1)"
    using flag am m by simp
  show "(model d' = None) = (model d = None \<and> filter is_fit es = [])"
    using rm(2) m fits by (simp add: record_event_keeps)
  show "filter is_fit es = [] \<longrightarrow> model d' = model d"
    using rm(3) m fits by (simp add: record_event_keeps)
  show "(model d = None \<or> (\<exists>c m. model d = Some (Forest c (Some m))))
         \<longrightarrow> (model d' = None \<or> (\<exists>c m. model d' = Some (Forest c (Some m))))"
    using rm(4) m by (simp add: record_event_keeps)
qed

lemma run_Returned:
  "run lib calls d = Returned es d' \<Longrightarrow>
   ((model d' = None) = (model d = None \<and> filter is_fit es = []))
   \<and> ((model d = None \<or> (\<exists>c m. model d = Some (Forest c (Some m))))
         \<longrightarrow> (model d' = None \<or> (\<exists>c m. model d' = Some (Forest c (Some m)))))"
proof (induction calls arbitrary: d es)
  case Nil
  then show ?case by simp
next
  case (Cons call calls)
  obtain t v p where call: "call = (t, v, p)" by (cases call)
  obtain es1 d1 where one: "add_event lib t v p d = Returned es1 d1"
    using Cons.prems call by (auto split: result.splits)
  obtain es2 where rest: "run lib calls d1 = Returned es2 d'" and es: "es = es1 @ es2"
    using Cons.prems call one by (auto split: result.splits)
  note a = add_event_Returned [OF one]
  note b = Cons.IH [OF rest]
  show ?case using a(2,4) b es by auto
qed

text \<open>
  C8. In every sequence of calls that starts with a new detector and has not raised,
  the model is \<open>None\<close> exactly as long as no call of \<open>fit\<close> has been made, it is
  never an unfitted estimator, and while it is \<open>None\<close> classification consults no
  model and flags nothing. Two runs agree: when the same feature vector is recorded
  again, at any later time and with any path, and the second call does not retrain, the
  second call flags it exactly if the first did, whatever happened to the queues and the
  buffer in between. On a fitted model the flag is raised exactly for a prediction of
  \<open>-1\<close>. What \<open>predict\<close> returns for a fitted model and a vector is the library's
  part, taken here as a function of the two.
\<close>

theorem classify_verdict:
  "(run lib calls (init now thr tw ti ms eng) = Returned es d \<longrightarrow>
      (model d = None) = (filter is_fit es = [])
      \<and> (model d = None \<longrightarrow> anomaly_detection lib v d = Returned [] False)
      \<and> (model d = None \<or> (\<exists>c m. model d = Some (Forest c (Some m)))))
   \<and> (add_event lib t v p d0 = Returned es1 d1
        \<and> add_event lib t' v p' d1 = Returned es2 d2 \<and> filter is_fit es2 = [] \<longrightarrow>
        (Print ML_Anomaly_detected \<in> set es1) = (Print ML_Anomaly_detected \<in> set es2))
   \<and> (model d3 = Some (Forest c3 (Some m3)) \<longrightarrow>
        anomaly_detection lib v d3 =
          (if predict lib m3 v = - 1
           then Returned [Predict v, Print ML_Anomaly_detected] True
           else Returned [Predict v] False))"
proof (intro conjI impI)
  assume r: "run lib calls (init now thr tw ti ms eng) = Returned es d"
  have i: "model (init now thr tw ti ms eng :: 'a detector) = None" by (simp add: init_def)
  show "(model d = None) = (filter is_fit es = [])"
    using run_Returned [OF r] i by simp
  show "model d = None \<or> (\<exists>c m. model d = Some (Forest c (Some m)))"
    using run_Returned [OF r] i by blast
next
  assume "model d = None"
  then show "anomaly_detection lib v d = Returned [] False"
    by (simp add: anomaly_detection_def)
next
  assume two: "add_event lib t v p d0 = Returned es1 d1
        \<and> add_event lib t' v p' d1 = Returned es2 d2 \<and> filter is_fit es2 = []"
  then have a: "add_event lib t v p d0 = Returned es1 d1"
    and b: "add_event lib t' v p' d1 = Returned es2 d2" and n: "filter is_fit es2 = []"
    by simp_all
  have "model d2 = model d1" using add_event_Returned(3) [OF b] n by simp
  then show "(Print ML_Anomaly_detected \<in> set es1) = (Print ML_Anomaly_detected \<in> set es2)"
    using add_event_Returned(1) [OF a] add_event_Returned(1) [OF b] by simp
next
  assume "model d3 = Some (Forest c3 (Some m3))"
  then show "anomaly_detection lib v d3 =
          (if predict lib m3 v = - 1
           then Returned [Predict v, Print ML_Anomaly_detected] True
           else Returned [Predict v] False)"
    by (simp add: anomaly_detection_def)
qed

theorem classify_verdict_witness:
  "anomaly_detection top_fraction [0, 999999] calm = Returned [] False
   \<and> Print ML_Anomaly_detected \<in> set (effects_of
        (add_event top_fraction 200000000 [0, 999999] (Some ''/tmp/big.bin'') calm))
   \<and> Print ML_Anomaly_detected \<in> set (effects_of
        (add_event top_fraction 201000000 [0, 999999] (Some ''/tmp/big.bin'') alerted))
   \<and> anomaly_detection top_fraction [3, 10] alerted = Returned [Predict [3, 10]] False"
proof -
  note T = classify_verdict [where lib = top_fraction and calls = first_calls
      and now = 0 and thr = 2 and tw = 60 and ti = 30 and ms = 1000 and eng = "Some engine0"
      and d = calm and v = "[0, 999999]"
      and t = 200000000 and p = "Some ''/tmp/big.bin''" and ?d0.0 = calm and ?d1.0 = alerted
      and t' = 201000000 and p' = "Some ''/tmp/big.bin''"
      and ?d3.0 = alerted and ?c3.0 = "2 / 5"
      and ?m3.0 = "(2 / 5, [[3, 10], [3, 10], [3, 10], [3, 10], [0, 999999]])",
      unfolded first_calls_reach_calm outlier_after_idle outlier_again]
  note U = classify_verdict [where lib = top_fraction and v = "[3, 10]"
      and ?d3.0 = alerted and ?c3.0 = "2 / 5"
      and ?m3.0 = "(2 / 5, [[3, 10], [3, 10], [3, 10], [3, 10], [0, 999999]])"]
  have none: "model calm = None" by (simp add: calm_def init_def)
  have fitted: "model alerted = Some (Forest (2 / 5)
      (Some (2 / 5, [[3, 10], [3, 10], [3, 10], [3, 10], [0, 999999]])))"
    by (simp add: alerted_def)
  have inlier: "predict top_fraction (2 / 5, [[3, 10], [3, 10], [3, 10], [3, 10], [0, 999999]])
      [3, 10] \<noteq> - 1"
    by (simp add: top_fraction_def file_size_def)
  have 1: "anomaly_detection top_fraction [0, 999999] calm = Returned [] False"
    using T none by simp
  have 4: "anomaly_detection top_fraction [3, 10] alerted = Returned [Predict [3, 10]] False"
    using U fitted inlier by simp
  show ?thesis
    using 1 4 by (simp add: outlier_after_idle outlier_again)
qed

section \<open>Properties of the response engine\<close>

lemma kill_process_dry_run:
  "dry_run self \<Longrightarrow> snd (kill_process os self pid w) = w"
  by (simp add: kill_process_def)

lemma kill_each_dry_run:
  "dry_run self \<Longrightarrow>
   kill_each os self dir_path ps w =
     (concat (map (\<lambda>(pid, files).
         case (case files of None \<Rightarrow> None | Some fs \<Rightarrow> first_open_under dir_path fs) of
           None \<Rightarrow> []
         | Some f \<Rightarrow> Print (RESPONSE_Killing_process_with_open_file pid f)
                     # fst (kill_process os self pid w)) ps), w)"
proof (induction ps)
  case Nil
  then show ?case by simp
next
  case (Cons a ps)
  obtain pid files where a: "a = (pid, files)" by (cases a)
  have kp: "kill_process os self pid w = (fst (kill_process os self pid w), w)"
    using kill_process_dry_run [OF Cons.prems, of os pid w]
    by (metis prod.collapse)
  show ?case
  proof (cases "case files of None \<Rightarrow> None | Some fs \<Rightarrow> first_open_under dir_path fs")
    case None
    then show ?thesis using Cons a by simp
  next
    case (Some f)
    show ?thesis
      unfolding a
      apply (simp only: kill_each.simps Some option.case)
      apply (subst kp)
      apply (simp add: Cons.IH [OF Cons.prems] Some)
      done
  qed
qed

lemma kill_offending_process_dry_run:
  "dry_run self \<Longrightarrow>
   kill_offending_process os self q w =
     (concat (map (\<lambda>(pid, files).
         case (case files of None \<Rightarrow> None | Some fs \<Rightarrow> first_open_under q fs) of
           None \<Rightarrow> []
         | Some f \<Rightarrow> Print (RESPONSE_Killing_process_with_open_file pid f)
                     # fst (kill_process os self pid w)) (process_iter os w)), w)"
  unfolding kill_offending_process_def by (rule kill_each_dry_run)

lemma perform_dry_run:
  assumes "dry_run self"
  shows "snd (perform os self c w) = w"
proof (cases c)
  case (Lock_file q)
  then show ?thesis using assms by (simp add: lock_file_def)
next
  case (Quarantine_file q)
  then show ?thesis using assms by (simp add: quarantine_file_def)
next
  case (Lock_directory q)
  then show ?thesis using assms by (simp add: lock_directory_def)
next
  case (Kill_offending_process q)
  then show ?thesis by (simp add: kill_offending_process_dry_run [OF assms])
qed

lemma carry_out_dry_run:
  "dry_run self \<Longrightarrow> snd (carry_out os self es w) = w"
proof (induction es arbitrary: w)
  case Nil
  then show ?case by simp
next
  case (Cons e es)
  obtain out' w'' where q: "carry_out os self es w = (out', w'')"
    by (cases "carry_out os self es w")
  have w'': "w'' = w" using Cons.IH [OF Cons.prems, of w] q by simp
  show ?case
  proof (cases e)
    case (Engine c)
    obtain out w' where p: "perform os self c w = (out, w')"
      by (cases "perform os self c w")
    have "w' = w" using perform_dry_run [OF Cons.prems, of os c w] p by simp
    then show ?thesis using Engine p q w'' by simp
  qed (simp_all add: q w'')
qed

text \<open>
  C6. With \<open>dry_run\<close> set, whatever the operating system does on a call: \<open>lock_file\<close>
  and \<open>quarantine_file\<close> on an existing path, \<open>lock_directory\<close>, and
  \<open>kill_process\<close> on a running process print their line and leave the state of the
  operating system as it is, so every file keeps its path and its mode and every
  process runs on; \<open>kill_offending_process\<close> prints, for each process with an open
  file under the directory, its line and what \<open>kill_process\<close> prints, and changes
  nothing either; so no call of the detector changes anything.
\<close>

theorem dry_run_suppresses_os_calls:
  assumes "dry_run self"
  shows "(path_exists os w p \<longrightarrow>
           lock_file os self p w = ([Print (RESPONSE_Locking_file_permissions p)], w)
           \<and> quarantine_file os self p w = ([Print (RESPONSE_Quarantining_file p)], w))
         \<and> lock_directory os self p w = ([Print (RESPONSE_Locking_directory p)], w)
         \<and> (process_lookup os w pid \<longrightarrow>
              kill_process os self pid w = ([Print (RESPONSE_Killing_process pid)], w))
         \<and> kill_offending_process os self p w =
             (concat (map (\<lambda>(pid, files).
                 case (case files of None \<Rightarrow> None | Some fs \<Rightarrow> first_open_under p fs) of
                   None \<Rightarrow> []
                 | Some f \<Rightarrow> Print (RESPONSE_Killing_process_with_open_file pid f)
                             # fst (kill_process os self pid w)) (process_iter os w)), w)
         \<and> snd (perform os self c w) = w"
  using assms kill_offending_process_dry_run [OF assms, of os p w]
    perform_dry_run [OF assms, of os c w]
  by (simp add: lock_file_def quarantine_file_def kill_process_def lock_directory_def)

lemmas engine_defs = lock_file_def quarantine_file_def kill_process_def lock_directory_def
  kill_offending_process_def table_os_def basename_def path_join_def

theorem dry_run_suppresses_os_calls_witness:
  "lock_file table_os dry_engine ''/tmp/a.txt'' small_world =
     ([Print (RESPONSE_Locking_file_permissions ''/tmp/a.txt'')], small_world)
   \<and> quarantine_file table_os dry_engine ''/tmp/a.txt'' small_world =
     ([Print (RESPONSE_Quarantining_file ''/tmp/a.txt'')], small_world)
   \<and> lock_directory table_os dry_engine ''/tmp'' small_world =
     ([Print (RESPONSE_Locking_directory ''/tmp'')], small_world)
   \<and> kill_process table_os dry_engine 7 small_world =
     ([Print (RESPONSE_Killing_process 7)], small_world)
   \<and> kill_offending_process table_os dry_engine ''/tmp'' small_world =
     ([Print (RESPONSE_Killing_process_with_open_file 7 ''/tmp/a.txt''),
       Print (RESPONSE_Killing_process 7)], small_world)"
proof -
  have d: "dry_run dry_engine" by (simp add: dry_engine_def)
  have e: "path_exists table_os small_world ''/tmp/a.txt''"
    by (simp add: table_os_def small_world_def)
  have l: "process_lookup table_os small_world 7"
    by (simp add: table_os_def small_world_def)
  have k: "fst (kill_process table_os dry_engine 7 small_world)
      = [Print (RESPONSE_Killing_process 7)]"
    by (simp add: engine_defs dry_engine_def small_world_def)
  have i: "process_iter table_os small_world = running small_world"
    by (simp add: table_os_def)
  show ?thesis
    using dry_run_suppresses_os_calls [OF d, of table_os small_world "''/tmp/a.txt''" 7
        "Lock_file ''/tmp''"]
      dry_run_suppresses_os_calls [OF d, of table_os small_world "''/tmp''" 7
        "Lock_file ''/tmp''"] e l k
    by (simp add: i) (simp add: small_world_def)
qed

text \<open>
  Without \<open>dry_run\<close> the same calls do act on the table of files and processes, and a
  High threat handled by a dry-run engine prints every line and changes nothing.
\<close>

lemma engine_acts_without_dry_run:
  "lock_file table_os engine0 ''/tmp/a.txt'' small_world =
     ([Print (RESPONSE_Locking_file_permissions ''/tmp/a.txt'')],
      small_world\<lparr>files := [(''/tmp/a.txt'', 256), (''/home/u/notes.txt'', 420)]\<rparr>)
   \<and> quarantine_file table_os engine0 ''/tmp/a.txt'' small_world =
     ([Print (RESPONSE_Quarantining_file ''/tmp/a.txt'')],
      small_world\<lparr>files := [(''./quarantine/a.txt'', 420), (''/home/u/notes.txt'', 420)]\<rparr>)
   \<and> kill_offending_process table_os engine0 ''/tmp'' small_world =
     ([Print (RESPONSE_Killing_process_with_open_file 7 ''/tmp/a.txt''),
       Print (RESPONSE_Killing_process 7)],
      small_world\<lparr>running := [(8, None), (9, Some [''/home/u/notes.txt''])]\<rparr>)"
  by (simp add: engine_defs engine0_def small_world_def)

lemma dry_run_high_threat_scenario:
  "carry_out table_os dry_engine
     (effects_of (add_event never_fits 4000000 [0, 0] (Some ''/tmp/b.txt'')
        (three_queued\<lparr>response_engine := Some dry_engine\<rparr>))) small_world =
     ([Print DEBUG_Using_detector, Print (THREAT_MEDIUM_locking 2),
       Print (RESPONSE_Locking_file_permissions ''/tmp/a.txt''),
       Print (THREAT_HIGH_quarantining 2),
       Print (RESPONSE_Quarantining_file ''/tmp/a.txt''),
       Print (RESPONSE_Locking_directory ''/tmp''),
       Print (RESPONSE_Killing_process_with_open_file 7 ''/tmp/a.txt''),
       Print (RESPONSE_Killing_process 7)], small_world)"
  by (simp add: three_queued_def run_defs engine_defs dry_engine_def small_world_def)

section \<open>Properties of the event handler\<close>

lemma report_not_dropped: "report a g k l r \<noteq> Returned [] h"
  by (cases r) (simp_all add: report_def)

lemma should_ignore_iff:
  "should_ignore fnmatch patterns path = (\<exists>pattern\<in>set patterns. fnmatch path pattern)"
  by (induction patterns) auto

lemma feed_file_moved:
  "event_class event = FileMovedEvent \<Longrightarrow> anomaly_detector h = Some d \<Longrightarrow>
   feed getsize lib t event h =
     (case add_event lib t
             [2, case getsize (src_path event) of None \<Rightarrow> 0 | Some n \<Rightarrow> int n]
             (Some (src_path event)) d of
        Raised es e d' \<Rightarrow> Raised es e (h\<lparr>anomaly_detector := Some d'\<rparr>)
      | Returned es d' \<Rightarrow> Returned es (h\<lparr>anomaly_detector := Some d'\<rparr>))"
  by (simp add: feed_def get_event_vector_def)

text \<open>
  C7, as the code has it. A created, deleted or modified event whose path matches one
  of the configured ignore patterns is dropped before anything else happens: no effect,
  and the handler with its detector unchanged. A moved event whose source path matches
  is dropped exactly when its destination path matches a pattern too; when it does not,
  and the event is the move of a file and a detector is attached, the event is recorded
  by \<open>add_event\<close> under its source path with the feature vector of kind 2 and the
  size of the source path, and the alert, GUI and log lines follow unless \<open>add_event\<close>
  raised.
\<close>

theorem ignored_events_dropped:
  assumes "\<exists>pattern\<in>set (ignore_patterns h). fnmatch (src_path event) pattern"
  shows "on_created fnmatch getsize lib t event h = Returned [] h
         \<and> on_deleted fnmatch getsize lib t event h = Returned [] h
         \<and> on_modified fnmatch getsize lib t event h = Returned [] h
         \<and> ((\<exists>pattern\<in>set (ignore_patterns h). fnmatch (dest_path event) pattern) \<longrightarrow>
              on_moved fnmatch getsize lib t event h = Returned [] h)
         \<and> (\<not> (\<exists>pattern\<in>set (ignore_patterns h). fnmatch (dest_path event) pattern) \<longrightarrow>
              on_moved fnmatch getsize lib t event h \<noteq> Returned [] h
              \<and> (event_class event = FileMovedEvent \<and> anomaly_detector h = Some d \<longrightarrow>
                   on_moved fnmatch getsize lib t event h =
                     (case add_event lib t
                             [2, case getsize (src_path event) of None \<Rightarrow> 0
                                 | Some n \<Rightarrow> int n]
                             (Some (src_path event)) d of
                        Raised es e d' \<Rightarrow> Raised es e (h\<lparr>anomaly_detector := Some d'\<rparr>)
                      | Returned es d' \<Rightarrow>
                          Returned
                            (es @ [Print (Alert (''Alert! '' @ src_path event
                                      @ '' has been moved to '' @ dest_path event @ ''.'')),
                                   Gui_log (''File moved: '' @ src_path event @ '' -> ''
                                      @ dest_path event),
                                   Log_event ''moved''
                                     (src_path event @ '' -> '' @ dest_path event)])
                            (h\<lparr>anomaly_detector := Some d'\<rparr>))))"
proof -
  have src: "should_ignore fnmatch (ignore_patterns h) (src_path event)"
    using assms by (simp add: should_ignore_iff)
  have dst: "should_ignore fnmatch (ignore_patterns h) (dest_path event)
      = (\<exists>pattern\<in>set (ignore_patterns h). fnmatch (dest_path event) pattern)"
    by (rule should_ignore_iff)
  have moved: "on_moved fnmatch getsize lib t event h =
      (case add_event lib t
              [2, case getsize (src_path event) of None \<Rightarrow> 0 | Some n \<Rightarrow> int n]
              (Some (src_path event)) d of
         Raised es e d' \<Rightarrow> Raised es e (h\<lparr>anomaly_detector := Some d'\<rparr>)
       | Returned es d' \<Rightarrow>
           Returned
             (es @ [Print (Alert (''Alert! '' @ src_path event
                       @ '' has been moved to '' @ dest_path event @ ''.'')),
                    Gui_log (''File moved: '' @ src_path event @ '' -> '' @ dest_path event),
                    Log_event ''moved'' (src_path event @ '' -> '' @ dest_path event)])
             (h\<lparr>anomaly_detector := Some d'\<rparr>))"
    if "\<not> should_ignore fnmatch (ignore_patterns h) (dest_path event)"
      "event_class event = FileMovedEvent" "anomaly_detector h = Some d"
    using that feed_file_moved [OF that(2,3), of getsize lib t]
    by (simp add: on_moved_def report_def split: result.splits)
  show ?thesis
    using src moved unfolding dst [symmetric]
    by (simp add: on_created_def on_deleted_def on_modified_def on_moved_def
        report_not_dropped)
qed

theorem ignored_events_dropped_witness:
  "on_created glob (\<lambda>p. None) never_fits 1000000 scratch_written watcher = Returned [] watcher
   \<and> on_deleted glob (\<lambda>p. None) never_fits 1000000 scratch_written watcher
       = Returned [] watcher
   \<and> on_modified glob (\<lambda>p. None) never_fits 1000000 scratch_written watcher
       = Returned [] watcher
   \<and> on_moved glob (\<lambda>p. None) never_fits 1000000 log_rotated watcher = Returned [] watcher
   \<and> on_moved glob (\<lambda>p. None) never_fits 1000000 renamed watcher =
       Returned [Print (Alert ''Alert! /tmp/a.tmp has been moved to /tmp/a.txt.''),
                 Gui_log ''File moved: /tmp/a.tmp -> /tmp/a.txt'',
                 Log_event ''moved'' ''/tmp/a.tmp -> /tmp/a.txt'']
         (watcher\<lparr>anomaly_detector := Some
            ((init 0 10 60 30 1000 (Some engine0))
               \<lparr>event_queue := [(1000000, [2, 0], Some ''/tmp/a.tmp'')],
                 samples := [[2, 0]]\<rparr>)\<rparr>)"
proof -
  have a: "\<exists>pattern\<in>set (ignore_patterns watcher). glob (src_path scratch_written) pattern"
    by (simp add: watcher_def scratch_written_def)
  have b: "\<exists>pattern\<in>set (ignore_patterns watcher). glob (src_path log_rotated) pattern"
    by (simp add: watcher_def log_rotated_def)
  have c: "\<exists>pattern\<in>set (ignore_patterns watcher). glob (dest_path log_rotated) pattern"
    by (simp add: watcher_def log_rotated_def)
  have e: "\<exists>pattern\<in>set (ignore_patterns watcher). glob (src_path renamed) pattern"
    by (simp add: watcher_def renamed_def)
  have f: "\<not> (\<exists>pattern\<in>set (ignore_patterns watcher). glob (dest_path renamed) pattern)"
    by (simp add: watcher_def renamed_def)
  have g: "event_class renamed = FileMovedEvent
      \<and> anomaly_detector watcher = Some (init 0 10 60 30 1000 (Some engine0))"
    by (simp add: watcher_def renamed_def)
  have r: "add_event never_fits 1000000 [2, 0] (Some ''/tmp/a.tmp'')
        (init 0 10 60 30 1000 (Some engine0)) =
      Returned [] ((init 0 10 60 30 1000 (Some engine0))
               \<lparr>event_queue := [(1000000, [2, 0], Some ''/tmp/a.tmp'')],
                 samples := [[2, 0]]\<rparr>)"
    by (simp add: run_defs)
  note T1 = ignored_events_dropped [where fnmatch = glob and h = watcher
      and event = scratch_written and getsize = "\<lambda>p. None" and lib = never_fits
      and t = 1000000, OF a]
  note T2 = ignored_events_dropped [where fnmatch = glob and h = watcher
      and event = log_rotated and getsize = "\<lambda>p. None" and lib = never_fits
      and t = 1000000, OF b]
  note T3 = ignored_events_dropped [where fnmatch = glob and h = watcher
      and event = renamed and getsize = "\<lambda>p. None" and lib = never_fits
      and t = 1000000 and d = "init 0 10 60 30 1000 (Some engine0)", OF e]
  have 1: "on_created glob (\<lambda>p. None) never_fits 1000000 scratch_written watcher
      = Returned [] watcher"
    and 2: "on_deleted glob (\<lambda>p. None) never_fits 1000000 scratch_written watcher
      = Returned [] watcher"
    and 3: "on_modified glob (\<lambda>p. None) never_fits 1000000 scratch_written watcher
      = Returned [] watcher"
    using T1 by blast+
  have 4: "on_moved glob (\<lambda>p. None) never_fits 1000000 log_rotated watcher
      = Returned [] watcher"
    using T2 c by blast
  have 5: "on_moved glob (\<lambda>p. None) never_fits 1000000 renamed watcher =
      (case add_event never_fits 1000000
              [2, case (\<lambda>p. None :: nat option) (src_path renamed) of None \<Rightarrow> 0
                  | Some n \<Rightarrow> int n]
              (Some (src_path renamed)) (init 0 10 60 30 1000 (Some engine0)) of
         Raised es e d' \<Rightarrow> Raised es e (watcher\<lparr>anomaly_detector := Some d'\<rparr>)
       | Returned es d' \<Rightarrow>
           Returned
             (es @ [Print (Alert (''Alert! '' @ src_path renamed
                       @ '' has been moved to '' @ dest_path renamed @ ''.'')),
                    Gui_log (''File moved: '' @ src_path renamed @ '' -> ''
                       @ dest_path renamed),
                    Log_event ''moved'' (src_path renamed @ '' -> '' @ dest_path renamed)])
             (watcher\<lparr>anomaly_detector := Some d'\<rparr>))"
    using T3 f g by blast
  have 6: "src_path renamed = ''/tmp/a.tmp''" "dest_path renamed = ''/tmp/a.txt''"
    by (simp_all add: renamed_def)
  show ?thesis
    using 1 2 3 4 5 by (simp add: 6 r)
qed

text \<open>
  A file renamed from an ignored name to one that is not ignored reaches the detector,
  under its source path.
\<close>

theorem moved_from_ignored_counterexample:
  "should_ignore glob (ignore_patterns watcher) (src_path renamed)
   \<and> on_moved glob (\<lambda>p. None) never_fits 1000000 renamed watcher =
       Returned [Print (Alert ''Alert! /tmp/a.tmp has been moved to /tmp/a.txt.''),
                 Gui_log ''File moved: /tmp/a.tmp -> /tmp/a.txt'',
                 Log_event ''moved'' ''/tmp/a.tmp -> /tmp/a.txt'']
         (watcher\<lparr>anomaly_detector := Some
            ((init 0 10 60 30 1000 (Some engine0))
               \<lparr>event_queue := [(1000000, [2, 0], Some ''/tmp/a.tmp'')],
                 samples := [[2, 0]]\<rparr>)\<rparr>)"
  by (simp add: watcher_def renamed_def on_moved_def report_def feed_def
      get_event_vector_def run_defs)

text \<open>
  The move of a directory has no feature vector: it is not dropped either, but only the
  three lines are written and the detector is not called.
\<close>

lemma directory_move_not_recorded:
  "on_moved glob (\<lambda>p. None) never_fits 1000000 folder_renamed watcher =
     Returned [Print (Alert ''Alert! /tmp/a.tmp has been moved to /tmp/a.txt.''),
               Gui_log ''File moved: /tmp/a.tmp -> /tmp/a.txt'',
               Log_event ''moved'' ''/tmp/a.tmp -> /tmp/a.txt''] watcher"
  by (simp add: watcher_def folder_renamed_def on_moved_def report_def feed_def
      get_event_vector_def)

end
